theory Spec2Isabelle
  imports Complex_Main
begin

section \<open>Errors raised by the libraries the notebooks call\<close>

text \<open>
  The notebooks raise nothing themselves; every error is one that a library call or an
  operation of Python raises. A call that may raise returns \<open>error + 'a\<close>, with \<open>Inl\<close>
  the exception; \<open>and_then\<close> passes the result of a call that returned on to the next
  call, and \<open>map_result\<close> applies a function to it.
\<close>

datatype error =
    RuntimeError
  | ZeroDivisionError
  | FileExistsError
  | FileNotFoundError
  | NotADirectoryError
  | IsADirectoryError
  | NameError
  | AssertionError

fun and_then :: "error + 'a \<Rightarrow> ('a \<Rightarrow> error + 'b) \<Rightarrow> error + 'b" where
  "and_then (Inl e) f = Inl e"
| "and_then (Inr x) f = f x"

fun map_result :: "('a \<Rightarrow> 'b) \<Rightarrow> error + 'a \<Rightarrow> error + 'b" where
  "map_result f (Inl e) = Inl e"
| "map_result f (Inr x) = Inr (f x)"

section \<open>Workflow notebook: data and the 80/20 split\<close>

text \<open>
  \<^verbatim>\<open>
  true_weight, true_bias = 0.7, 0.3
  predictor = torch.arange(0, 1, 0.02)
  target = true_weight * predictor + true_bias
  train_cutoff = int(0.8 * predictor.size(dim=0))
  train_predictor, train_target = predictor[:train_cutoff], target[:train_cutoff]
  test_predictor, test_target = predictor[train_cutoff:], target[train_cutoff:]
  \<close>
  A one-dimensional tensor is the list of its elements. The elements are real numbers
  here, not their 32-bit approximations. For a positive step, as in the notebook,
  \<open>arange\<close> has \<open>\<lceil>(end - start) / step\<rceil>\<close> elements \<open>start + i * step\<close>. \<open>int\<close> truncates
  the product \<open>0.8 * size\<close>, which is not negative. A slice \<open>xs[:k]\<close> with \<open>0 \<le> k\<close> is
  \<open>take k xs\<close> and \<open>xs[k:]\<close> is \<open>drop k xs\<close>.
\<close>

definition arange :: "real \<Rightarrow> real \<Rightarrow> real \<Rightarrow> real list" where
  "arange start end step =
     map (\<lambda>i. start + of_nat i * step) [0 ..< nat \<lceil>(end - start) / step\<rceil>]"

definition true_weight :: real where
  "true_weight = 7 / 10"

definition true_bias :: real where
  "true_bias = 3 / 10"

definition predictor :: "real list" where
  "predictor = arange 0 1 (2 / 100)"

definition target :: "real list" where
  "target = map (\<lambda>x. true_weight * x + true_bias) predictor"

definition train_cutoff :: "'a list \<Rightarrow> nat" where
  "train_cutoff xs = nat \<lfloor>(8 / 10 :: real) * of_nat (length xs)\<rfloor>"

record ('a, 'b) split =
  train_predictor :: "'a list"
  train_target :: "'b list"
  test_predictor :: "'a list"
  test_target :: "'b list"

definition split_cell :: "'a list \<Rightarrow> 'b list \<Rightarrow> ('a, 'b) split" where
  "split_cell xs ys =
     (let c = train_cutoff xs
      in \<lparr>train_predictor = take c xs, train_target = take c ys,
          test_predictor = drop c xs, test_target = drop c ys\<rparr>)"

section \<open>Classification notebook: the accuracy function\<close>

text \<open>
  \<^verbatim>\<open>
  def accuracy_function(test_output, test_classification):
      correct = torch.eq(test_output, test_classification).sum().item()
      return (correct / len(test_classification)) * 100
  \<close>
  \<open>torch.eq\<close> compares two one-dimensional tensors position by position; a tensor of
  one element is broadcast against the other, and any other pair of different lengths
  raises. \<open>sum\<close> counts the \<open>True\<close> positions. The division is Python's true division,
  which raises on a zero length; its result is a real number here.
\<close>

definition torch_eq :: "'a list \<Rightarrow> 'a list \<Rightarrow> error + bool list" where
  "torch_eq a b =
     (if length a = length b then Inr (map (\<lambda>(x, y). x = y) (zip a b))
      else if length a = 1 then Inr (map (\<lambda>y. hd a = y) b)
      else if length b = 1 then Inr (map (\<lambda>x. x = hd b) a)
      else Inl RuntimeError)"

definition tensor_sum_item :: "bool list \<Rightarrow> nat" where
  "tensor_sum_item bs = sum_list (map of_bool bs)"

definition accuracy_function :: "'a list \<Rightarrow> 'a list \<Rightarrow> error + real" where
  "accuracy_function test_output test_classification =
     and_then (torch_eq test_output test_classification) (\<lambda>eqs.
       let correct = tensor_sum_item eqs
       in if length test_classification = 0 then Inl ZeroDivisionError
          else Inr ((of_nat correct / of_nat (length test_classification)) * 100))"

section \<open>Workflow notebook: the model and its persistence\<close>

text \<open>
  \<^verbatim>\<open>
  class LinearRegressionModel(nn.Module):
      def __init__(self):
          super().__init__()
          self._weight = nn.Parameter(torch.randn(1, dtype=torch.float), requires_grad=True)
          self._bias = nn.Parameter(torch.randn(1, dtype=torch.float), requires_grad=True)
      def forward(self, predictor):
          return self.weight * predictor + self.bias
  \<close>
  Both parameters are tensors of one element, broadcast over the predictor by
  \<open>forward\<close>. The two random draws of the constructor are its arguments here. The
  element type is any type with a product and a sum.
\<close>

record 'a LinearRegressionModel =
  weight :: 'a
  bias :: 'a

definition LinearRegressionModel_init :: "'a \<Rightarrow> 'a \<Rightarrow> 'a LinearRegressionModel" where
  "LinearRegressionModel_init w0 b0 = \<lparr>weight = w0, bias = b0\<rparr>"

definition forward :: "('a :: {times, plus}) LinearRegressionModel \<Rightarrow> 'a list \<Rightarrow> 'a list" where
  "forward self xs = map (\<lambda>x. weight self * x + bias self) xs"

text \<open>
  \<open>state_dict\<close> lists the registered parameters under their attribute names, in the
  order of registration. \<open>load_state_dict\<close> (strict by default) raises when a parameter
  of the module is missing from the dictionary or the dictionary has a key the module
  does not know, and otherwise copies the values into the module.
\<close>

type_synonym 'a state_dict = "(string \<times> 'a) list"

definition parameter_names :: "string list" where
  "parameter_names = [''_weight'', ''_bias'']"

definition state_dict :: "'a LinearRegressionModel \<Rightarrow> 'a state_dict" where
  "state_dict self = [(''_weight'', weight self), (''_bias'', bias self)]"

definition load_state_dict ::
  "'a LinearRegressionModel \<Rightarrow> 'a state_dict \<Rightarrow> error + 'a LinearRegressionModel" where
  "load_state_dict self sd =
     (let missing_keys = filter (\<lambda>k. k \<notin> set (map fst sd)) parameter_names;
          unexpected_keys = filter (\<lambda>k. k \<notin> set parameter_names) (map fst sd)
      in if missing_keys \<noteq> [] \<or> unexpected_keys \<noteq> [] then Inl RuntimeError
         else case (map_of sd ''_weight'', map_of sd ''_bias'') of
                (Some w, Some b) \<Rightarrow> Inr (self\<lparr>weight := w, bias := b\<rparr>)
              | _ \<Rightarrow> Inl RuntimeError)"

subsection \<open>The file system\<close>

text \<open>
  A path is the list of its components, relative to the working directory, which is the
  empty path and always a directory. A file holds what the framework's serialiser wrote.
  \<open>pathlib\<close> and \<open>torch.save\<close>/\<open>torch.load\<close> belong to the libraries, not to the
  repository; they are modelled from their documentation:
  \<^item> \<open>os.mkdir\<close> raises \<open>FileExistsError\<close> when the path exists, \<open>FileNotFoundError\<close> when
    the parent does not, \<open>NotADirectoryError\<close> when the parent is a file;
  \<^item> \<open>Path.mkdir\<close> with \<open>parents\<close> creates the missing parents first, and with
    \<open>exist_ok\<close> ignores the error when the path already is a directory;
  \<^item> \<open>torch.save\<close> writes the serialised object to a file in an existing directory, and
    raises a \<open>RuntimeError\<close> when it cannot open the file for writing: the directory is
    missing, or the path is a directory;
  \<^item> \<open>torch.load\<close> opens the file as Python does, which raises \<open>FileNotFoundError\<close> or
    \<open>IsADirectoryError\<close>, and deserialises it.
  The serialiser is the framework's own; it is the pair of parameters \<open>pickle\<close> and
  \<open>unpickle\<close>.
\<close>

type_synonym path = "string list"

datatype 'b node = Dir | File 'b

type_synonym 'b filesystem = "path \<rightharpoonup> 'b node"

definition Path :: "string \<Rightarrow> path" where
  "Path name = [name]"

definition joinpath :: "path \<Rightarrow> string \<Rightarrow> path" where
  "joinpath p name = p @ [name]"

definition parent :: "path \<Rightarrow> path" where
  "parent p = butlast p"

definition node_at :: "'b filesystem \<Rightarrow> path \<Rightarrow> 'b node option" where
  "node_at fs p = (if p = [] then Some Dir else fs p)"

definition is_dir :: "path \<Rightarrow> 'b filesystem \<Rightarrow> bool" where
  "is_dir p fs = (case node_at fs p of Some Dir \<Rightarrow> True | _ \<Rightarrow> False)"

definition os_mkdir :: "path \<Rightarrow> 'b filesystem \<Rightarrow> error + 'b filesystem" where
  "os_mkdir p fs =
     (case node_at fs p of
        Some _ \<Rightarrow> Inl FileExistsError
      | None \<Rightarrow>
          (case node_at fs (parent p) of
             None \<Rightarrow> Inl FileNotFoundError
           | Some (File _) \<Rightarrow> Inl NotADirectoryError
           | Some Dir \<Rightarrow> Inr (fs(p \<mapsto> Dir))))"

function mkdir :: "path \<Rightarrow> bool \<Rightarrow> bool \<Rightarrow> 'b filesystem \<Rightarrow> error + 'b filesystem" where
  "mkdir p parents exist_ok fs =
     (case os_mkdir p fs of
        Inr fs' \<Rightarrow> Inr fs'
      | Inl e \<Rightarrow>
          if e = FileNotFoundError then
            if \<not> parents \<or> parent p = p then Inl e
            else and_then (mkdir (parent p) True True fs) (\<lambda>fs'. mkdir p False exist_ok fs')
          else if \<not> exist_ok \<or> \<not> is_dir p fs then Inl e
          else Inr fs)"
  by pat_completeness auto
termination
  by (relation "measures [\<lambda>(p, parents, exist_ok, fs). length p,
                          \<lambda>(p, parents, exist_ok, fs). if parents then 1 else 0]")
     (auto simp: parent_def, case_tac p, auto)

declare mkdir.simps [simp del]

definition torch_save ::
  "('o \<Rightarrow> 'b) \<Rightarrow> 'o \<Rightarrow> path \<Rightarrow> 'b filesystem \<Rightarrow> error + 'b filesystem" where
  "torch_save pickle obj f fs =
     (case node_at fs (parent f) of
        Some Dir \<Rightarrow>
          (case node_at fs f of
             Some Dir \<Rightarrow> Inl RuntimeError
           | _ \<Rightarrow> Inr (fs(f \<mapsto> File (pickle obj))))
      | _ \<Rightarrow> Inl RuntimeError)"

definition torch_load :: "('b \<Rightarrow> error + 'o) \<Rightarrow> path \<Rightarrow> 'b filesystem \<Rightarrow> error + 'o" where
  "torch_load unpickle f fs =
     (case node_at fs f of
        Some (File b) \<Rightarrow> unpickle b
      | Some Dir \<Rightarrow> Inl IsADirectoryError
      | None \<Rightarrow> Inl FileNotFoundError)"

text \<open>
  \<^verbatim>\<open>
  model_path = Path("models")
  model_path.mkdir(parents=True, exist_ok=True)
  torch.save(obj=sample_model.state_dict(), f=model_path / "linear_regressor.pth")
  \<close>
\<close>

definition model_path :: path where
  "model_path = Path ''models''"

definition save_cell ::
  "('a state_dict \<Rightarrow> 'b) \<Rightarrow> 'a LinearRegressionModel \<Rightarrow> 'b filesystem \<Rightarrow> error + 'b filesystem" where
  "save_cell pickle sample_model fs =
     and_then (mkdir model_path True True fs) (\<lambda>fs'.
       torch_save pickle (state_dict sample_model) (joinpath model_path ''linear_regressor.pth'') fs')"

text \<open>
  \<^verbatim>\<open>
  trained_model = LinearRegressionModel()
  trained_model.load_state_dict(torch.load(f=model_path / "linear_regressor.pth"))
  trained_model.eval()
  with torch.inference_mode():
      new_prediction = trained_model(new_predictor)
  \<close>
  The cell returns the reloaded model and its prediction.
\<close>

definition reload_cell ::
  "('b \<Rightarrow> error + ('a :: {times, plus}) state_dict) \<Rightarrow> 'a \<Rightarrow> 'a \<Rightarrow> 'a list \<Rightarrow> 'b filesystem
     \<Rightarrow> error + ('a LinearRegressionModel \<times> 'a list)" where
  "reload_cell unpickle w0 b0 new_predictor fs =
     (let trained_model = LinearRegressionModel_init w0 b0
      in and_then (torch_load unpickle (joinpath model_path ''linear_regressor.pth'') fs) (\<lambda>sd.
         and_then (load_state_dict trained_model sd) (\<lambda>trained_model.
           Inr (trained_model, forward trained_model new_predictor))))"


section \<open>Choosing the device\<close>







section \<open>Cells as programs of statements\<close>

text \<open>
  A statement takes the variables of the notebook and returns them updated, or raises;
  a statement that raises has assigned nothing. \<open>run\<close> composes statements into a block
  and \<open>for_each\<close> into \<^verbatim>\<open>for x in xs: body\<close>. A variable that holds a tensor is \<open>None\<close>
  until its first assignment, and reading it then is a \<open>NameError\<close>.
\<close>

type_synonym 's stmt = "'s \<Rightarrow> error + 's"

fun run :: "'s stmt list \<Rightarrow> 's stmt" where
  "run [] s = Inr s"
| "run (c # cs) s = and_then (c s) (run cs)"

fun for_each :: "'a list \<Rightarrow> ('a \<Rightarrow> 's stmt) \<Rightarrow> 's stmt" where
  "for_each [] body s = Inr s"
| "for_each (x # xs) body s = and_then (body x s) (for_each xs body)"

definition py_range :: "nat \<Rightarrow> nat list" where
  "py_range n = [0 ..< n]"

definition the_var :: "'a option \<Rightarrow> error + 'a" where
  "the_var v = (case v of None \<Rightarrow> Inl NameError | Some x \<Rightarrow> Inr x)"

text \<open>
  The text of a cell is a program: a single statement, a block, a \<^verbatim>\<open>with\<close> block, whose
  exit runs whether its body returns or raises, or a \<^verbatim>\<open>try\<close> with the handler chosen by
  the exception. A \<^verbatim>\<open>for\<close> loop over a list that is known when the loop starts is the
  block of its iterations. \<open>exec\<close> runs a program: it returns the variables as the
  program leaves them and the exception that left it, if one did. \<open>run_cell\<close> is the
  same run as a statement.

  No cell of the notebooks has a \<^verbatim>\<open>try\<close>. The constructor is here because Python has
  it: that a cell has no handler is then a property of its program, \<open>no_try\<close>, and what
  follows from it can be stated.
\<close>

datatype 's prog =
    Atom "'s stmt"
  | Block "'s prog list"
  | With "'s \<Rightarrow> 's" "'s \<Rightarrow> 's \<Rightarrow> 's" "'s prog"
  | Try "'s prog" "error \<Rightarrow> 's prog"

type_synonym 's outcome = "'s \<times> error option"

fun exec_seq :: "('s \<Rightarrow> 's outcome) list \<Rightarrow> 's \<Rightarrow> 's outcome" where
  "exec_seq [] s = (s, None)"
| "exec_seq (f # fs) s =
     (case f s of
        (s', None) \<Rightarrow> exec_seq fs s'
      | (s', Some e) \<Rightarrow> (s', Some e))"

primrec exec :: "'s prog \<Rightarrow> 's \<Rightarrow> 's outcome" where
  "exec (Atom c) s = (case c s of Inl e \<Rightarrow> (s, Some e) | Inr s' \<Rightarrow> (s', None))"
| "exec (Block ps) s = exec_seq (map exec ps) s"
| "exec (With enter exit body) s = (case exec body (enter s) of (s', r) \<Rightarrow> (exit s s', r))"
| "exec (Try body handler) s =
     (case exec body s of
        (s', None) \<Rightarrow> (s', None)
      | (s', Some e) \<Rightarrow> exec (handler e) s')"

definition run_cell :: "'s prog \<Rightarrow> 's stmt" where
  "run_cell p s = (case exec p s of (s', None) \<Rightarrow> Inr s' | (s', Some e) \<Rightarrow> Inl e)"

definition for_in :: "'a list \<Rightarrow> ('a \<Rightarrow> 's prog) \<Rightarrow> 's prog" where
  "for_in xs body = Block (map body xs)"


text \<open>
  \<open>reaches p s c t\<close>: the run of the program \<open>p\<close> from the variables \<open>s\<close> comes to the
  statement \<open>c\<close> with the variables \<open>t\<close>. A statement of a block is reached when the
  statements before it have returned, and a handler when the body of its \<^verbatim>\<open>try\<close> has
  raised.
\<close>

inductive reaches :: "'s prog \<Rightarrow> 's \<Rightarrow> 's stmt \<Rightarrow> 's \<Rightarrow> bool" where
  reaches_Atom: "reaches (Atom c) s c s"
| reaches_Block:
    "i < length ps \<Longrightarrow> exec (Block (take i ps)) s = (s', None) \<Longrightarrow> reaches (ps ! i) s' c t
     \<Longrightarrow> reaches (Block ps) s c t"
| reaches_With: "reaches body (enter s) c t \<Longrightarrow> reaches (With enter exit body) s c t"
| reaches_Try_body: "reaches body s c t \<Longrightarrow> reaches (Try body handler) s c t"
| reaches_Try_handler:
    "exec body s = (s', Some e) \<Longrightarrow> reaches (handler e) s' c t
     \<Longrightarrow> reaches (Try body handler) s c t"

section \<open>The framework as the training cells use it\<close>

text \<open>
  The training cells call the framework at five points. What it computes there is not
  part of the repository, so each is a parameter:
  \<^item> \<open>model_call\<close>: \<^verbatim>\<open>model(input)\<close>, the forward pass of the module with its current
    parameters. A module computes by its mode (\<open>train()\<close> or \<open>eval()\<close>), and records the
    graph of its output or not by whether the call is inside
    \<^verbatim>\<open>with torch.inference_mode()\<close>; the call is given both, the mode first;
  \<^item> \<open>loss_function\<close>: \<^verbatim>\<open>loss_function(prediction, target)\<close>, given whether the call is
    inside \<^verbatim>\<open>with torch.inference_mode()\<close>;
  \<^item> \<open>backward\<close>: the gradients that \<^verbatim>\<open>loss.backward()\<close> computes from the graph the loss
    tensor carries, one for each parameter; \<open>accumulate\<close> adds them to gradients already
    stored;
  \<^item> \<open>step\<close>: the parameters that \<^verbatim>\<open>optimizer.step()\<close> computes from the parameters and
    their stored gradients;
  \<^item> \<open>item\<close>: the number a loss tensor holds.
  Each of the first four may raise.
\<close>

record ('p, 'x, 'y, 'o, 'l) framework =
  model_call :: "bool \<Rightarrow> bool \<Rightarrow> 'p \<Rightarrow> 'x list \<Rightarrow> error + 'o"
  loss_function :: "bool \<Rightarrow> 'o \<Rightarrow> 'y list \<Rightarrow> error + 'l"
  backward :: "'l \<Rightarrow> error + 'p"
  accumulate :: "'p \<Rightarrow> 'p \<Rightarrow> 'p"
  step :: "'p \<Rightarrow> 'p \<Rightarrow> error + 'p"
  item :: "'l \<Rightarrow> real"

text \<open>
  The module and its optimizer: the parameters, their \<open>.grad\<close> (\<open>None\<close> after
  \<open>zero_grad\<close>), the mode set by \<open>train()\<close> and \<open>eval()\<close>, and whether the code runs inside
  \<^verbatim>\<open>with torch.inference_mode()\<close>. Every notebook extends this record by its own
  variables.
\<close>

record 'p session =
  params :: 'p
  grad :: "'p option"
  training :: bool
  inference :: bool

definition module_train :: "('p, 'm) session_scheme stmt" where
  "module_train s = Inr (s\<lparr>training := True\<rparr>)"

definition module_eval :: "('p, 'm) session_scheme stmt" where
  "module_eval s = Inr (s\<lparr>training := False\<rparr>)"

definition zero_grad :: "('p, 'm) session_scheme stmt" where
  "zero_grad s = Inr (s\<lparr>grad := None\<rparr>)"

definition tensor_backward ::
  "('p, 'x, 'y, 'o, 'l) framework \<Rightarrow> (('p, 'm) session_scheme \<Rightarrow> 'l option)
     \<Rightarrow> ('p, 'm) session_scheme stmt" where
  "tensor_backward fw var s =
     and_then (the_var (var s)) (\<lambda>l.
     and_then (backward fw l) (\<lambda>g.
       Inr (s\<lparr>grad := Some (case grad s of None \<Rightarrow> g | Some g0 \<Rightarrow> accumulate fw g0 g)\<rparr>)))"

definition optimizer_step :: "('p, 'x, 'y, 'o, 'l) framework \<Rightarrow> ('p, 'm) session_scheme stmt" where
  "optimizer_step fw s =
     (case grad s of
        None \<Rightarrow> Inr s
      | Some g \<Rightarrow> and_then (step fw (params s) g) (\<lambda>p. Inr (s\<lparr>params := p\<rparr>)))"

definition inference_mode :: "('p, 'm) session_scheme prog \<Rightarrow> ('p, 'm) session_scheme prog" where
  "inference_mode body =
     With (\<lambda>s. s\<lparr>inference := True\<rparr>) (\<lambda>s s'. s'\<lparr>inference := inference s\<rparr>) body"

section \<open>Workflow notebook: the training cell\<close>

text \<open>
  \<^verbatim>\<open>
  for epoch in range(epoch_count):
      sample_model.train()
      prediction = sample_model(train_predictor)
      loss = loss_function(prediction, train_target)
      optimizer.zero_grad()
      loss.backward()
      optimizer.step()
      sample_model.eval()
      with torch.inference_mode():
          test_prediction = sample_model(test_predictor)
          test_loss = loss_function(test_prediction, test_target)
      train_losses.append(loss.detach().numpy())
      test_losses.append(test_loss.detach().numpy())
  \<close>
  The fields are the variables of the notebook, prefixed \<open>wf\<close> because the notebooks
  reuse each other's names.
\<close>

record ('p, 'o, 'l) workflow = "'p session" +
  wf_prediction :: "'o option"
  wf_loss :: "'l option"
  wf_test_prediction :: "'o option"
  wf_test_loss :: "'l option"
  wf_train_losses :: "real list"
  wf_test_losses :: "real list"

definition wf_assign_prediction ::
  "('p, 'x, 'y, 'o, 'l) framework \<Rightarrow> ('x, 'y) split \<Rightarrow> ('p, 'o, 'l) workflow stmt" where
  "wf_assign_prediction fw d s =
     and_then (model_call fw (training s) (inference s) (params s) (train_predictor d)) (\<lambda>t.
       Inr (s\<lparr>wf_prediction := Some t\<rparr>))"

definition wf_assign_loss ::
  "('p, 'x, 'y, 'o, 'l) framework \<Rightarrow> ('x, 'y) split \<Rightarrow> ('p, 'o, 'l) workflow stmt" where
  "wf_assign_loss fw d s =
     and_then (the_var (wf_prediction s)) (\<lambda>t.
     and_then (loss_function fw (inference s) t (train_target d)) (\<lambda>l.
       Inr (s\<lparr>wf_loss := Some l\<rparr>)))"

definition wf_assign_test_prediction ::
  "('p, 'x, 'y, 'o, 'l) framework \<Rightarrow> ('x, 'y) split \<Rightarrow> ('p, 'o, 'l) workflow stmt" where
  "wf_assign_test_prediction fw d s =
     and_then (model_call fw (training s) (inference s) (params s) (test_predictor d)) (\<lambda>t.
       Inr (s\<lparr>wf_test_prediction := Some t\<rparr>))"

definition wf_assign_test_loss ::
  "('p, 'x, 'y, 'o, 'l) framework \<Rightarrow> ('x, 'y) split \<Rightarrow> ('p, 'o, 'l) workflow stmt" where
  "wf_assign_test_loss fw d s =
     and_then (the_var (wf_test_prediction s)) (\<lambda>t.
     and_then (loss_function fw (inference s) t (test_target d)) (\<lambda>l.
       Inr (s\<lparr>wf_test_loss := Some l\<rparr>)))"

definition wf_append_train_losses ::
  "('p, 'x, 'y, 'o, 'l) framework \<Rightarrow> ('p, 'o, 'l) workflow stmt" where
  "wf_append_train_losses fw s =
     and_then (the_var (wf_loss s)) (\<lambda>l.
       Inr (s\<lparr>wf_train_losses := wf_train_losses s @ [item fw l]\<rparr>))"

definition wf_append_test_losses ::
  "('p, 'x, 'y, 'o, 'l) framework \<Rightarrow> ('p, 'o, 'l) workflow stmt" where
  "wf_append_test_losses fw s =
     and_then (the_var (wf_test_loss s)) (\<lambda>l.
       Inr (s\<lparr>wf_test_losses := wf_test_losses s @ [item fw l]\<rparr>))"

definition workflow_body ::
  "('p, 'x, 'y, 'o, 'l) framework \<Rightarrow> ('x, 'y) split \<Rightarrow> ('p, 'o, 'l) workflow prog list" where
  "workflow_body fw d =
     [Atom module_train,
      Atom (wf_assign_prediction fw d),
      Atom (wf_assign_loss fw d),
      Atom zero_grad,
      Atom (tensor_backward fw wf_loss),
      Atom (optimizer_step fw),
      Atom module_eval,
      inference_mode
        (Block [Atom (wf_assign_test_prediction fw d),
                Atom (wf_assign_test_loss fw d)]),
      Atom (wf_append_train_losses fw),
      Atom (wf_append_test_losses fw)]"

definition workflow_loop ::
  "('p, 'x, 'y, 'o, 'l) framework \<Rightarrow> nat \<Rightarrow> ('x, 'y) split \<Rightarrow> ('p, 'o, 'l) workflow prog" where
  "workflow_loop fw epoch_count d =
     for_in (py_range epoch_count) (\<lambda>epoch. Block (workflow_body fw d))"

text \<open>
  The variables when the training cell starts: the model as constructed (a new module is
  in training mode), no gradients, \<^verbatim>\<open>train_losses, test_losses = [], []\<close>, and no other
  variable of the cell assigned.
\<close>

definition workflow_start :: "'p \<Rightarrow> ('p, 'o, 'l) workflow" where
  "workflow_start sample_model =
     \<lparr>params = sample_model, grad = None, training = True, inference = False,
      wf_prediction = None, wf_loss = None, wf_test_prediction = None, wf_test_loss = None,
      wf_train_losses = [], wf_test_losses = []\<rparr>"

section \<open>Classification notebook: the training cells\<close>

text \<open>
  The notebook has three training cells with the same text, for two models and the epoch
  counts 100, 100 and 10000; they print every 10th, 10th and 1000th epoch.
  \<^verbatim>\<open>
  for epoch in range(epoch_count):
      model.train()
      train_logits = model(train_input).squeeze()
      train_classification = torch.round(torch.sigmoid(train_logits))
      train_loss = loss_function(train_logits, train_output)
      optimizer.zero_grad()
      train_loss.backward()
      optimizer.step()
      model.eval()
      with torch.inference_mode():
          test_logits = model(test_input).squeeze()
          test_classification = torch.round(torch.sigmoid(test_logits))
          test_loss = loss_function(test_logits, test_output)
      if epoch % 10 == 0:
          print(f"Epoch: {epoch} | Loss: {train_loss:.5f} | Test loss: {test_loss:.5f}")
  \<close>
  \<open>squeeze\<close> and the composition \<open>round_sigmoid\<close> of \<open>torch.sigmoid\<close> and \<open>torch.round\<close>
  are tensor functions of the framework, and parameters here. A printed line is the
  triple of the numbers it shows. The fields of both records are the variables of the
  notebook, prefixed \<open>cc\<close>.
\<close>

record ('x, 'y) circles =
  cc_train_input :: "'x list"
  cc_test_input :: "'x list"
  cc_train_output :: "'y list"
  cc_test_output :: "'y list"

record ('p, 'o, 'c, 'l) classification = "'p session" +
  cc_train_logits :: "'o option"
  cc_train_classification :: "'c option"
  cc_train_loss :: "'l option"
  cc_test_logits :: "'o option"
  cc_test_classification :: "'c option"
  cc_test_loss :: "'l option"
  cc_printed :: "(nat \<times> real \<times> real) list"

definition cc_assign_train_logits ::
  "('p, 'x, 'y, 'o, 'l) framework \<Rightarrow> ('o \<Rightarrow> 'o) \<Rightarrow> ('x, 'y) circles
     \<Rightarrow> ('p, 'o, 'c, 'l) classification stmt" where
  "cc_assign_train_logits fw squeeze d s =
     and_then (model_call fw (training s) (inference s) (params s) (cc_train_input d)) (\<lambda>t.
       Inr (s\<lparr>cc_train_logits := Some (squeeze t)\<rparr>))"

definition cc_assign_train_classification ::
  "('o \<Rightarrow> 'c) \<Rightarrow> ('p, 'o, 'c, 'l) classification stmt" where
  "cc_assign_train_classification round_sigmoid s =
     and_then (the_var (cc_train_logits s)) (\<lambda>t.
       Inr (s\<lparr>cc_train_classification := Some (round_sigmoid t)\<rparr>))"

definition cc_assign_train_loss ::
  "('p, 'x, 'y, 'o, 'l) framework \<Rightarrow> ('x, 'y) circles \<Rightarrow> ('p, 'o, 'c, 'l) classification stmt" where
  "cc_assign_train_loss fw d s =
     and_then (the_var (cc_train_logits s)) (\<lambda>t.
     and_then (loss_function fw (inference s) t (cc_train_output d)) (\<lambda>l.
       Inr (s\<lparr>cc_train_loss := Some l\<rparr>)))"

definition cc_assign_test_logits ::
  "('p, 'x, 'y, 'o, 'l) framework \<Rightarrow> ('o \<Rightarrow> 'o) \<Rightarrow> ('x, 'y) circles
     \<Rightarrow> ('p, 'o, 'c, 'l) classification stmt" where
  "cc_assign_test_logits fw squeeze d s =
     and_then (model_call fw (training s) (inference s) (params s) (cc_test_input d)) (\<lambda>t.
       Inr (s\<lparr>cc_test_logits := Some (squeeze t)\<rparr>))"

definition cc_assign_test_classification ::
  "('o \<Rightarrow> 'c) \<Rightarrow> ('p, 'o, 'c, 'l) classification stmt" where
  "cc_assign_test_classification round_sigmoid s =
     and_then (the_var (cc_test_logits s)) (\<lambda>t.
       Inr (s\<lparr>cc_test_classification := Some (round_sigmoid t)\<rparr>))"

definition cc_assign_test_loss ::
  "('p, 'x, 'y, 'o, 'l) framework \<Rightarrow> ('x, 'y) circles \<Rightarrow> ('p, 'o, 'c, 'l) classification stmt" where
  "cc_assign_test_loss fw d s =
     and_then (the_var (cc_test_logits s)) (\<lambda>t.
     and_then (loss_function fw (inference s) t (cc_test_output d)) (\<lambda>l.
       Inr (s\<lparr>cc_test_loss := Some l\<rparr>)))"

definition cc_print ::
  "('p, 'x, 'y, 'o, 'l) framework \<Rightarrow> nat \<Rightarrow> nat \<Rightarrow> ('p, 'o, 'c, 'l) classification stmt" where
  "cc_print fw print_every epoch s =
     (if print_every = 0 then Inl ZeroDivisionError
      else if epoch mod print_every = 0 then
        and_then (the_var (cc_train_loss s)) (\<lambda>l.
        and_then (the_var (cc_test_loss s)) (\<lambda>tl.
          Inr (s\<lparr>cc_printed := cc_printed s @ [(epoch, item fw l, item fw tl)]\<rparr>)))
      else Inr s)"

definition classification_body ::
  "('p, 'x, 'y, 'o, 'l) framework \<Rightarrow> ('o \<Rightarrow> 'o) \<Rightarrow> ('o \<Rightarrow> 'c) \<Rightarrow> nat \<Rightarrow> ('x, 'y) circles \<Rightarrow> nat
     \<Rightarrow> ('p, 'o, 'c, 'l) classification prog list" where
  "classification_body fw squeeze round_sigmoid print_every d epoch =
     [Atom module_train,
      Atom (cc_assign_train_logits fw squeeze d),
      Atom (cc_assign_train_classification round_sigmoid),
      Atom (cc_assign_train_loss fw d),
      Atom zero_grad,
      Atom (tensor_backward fw cc_train_loss),
      Atom (optimizer_step fw),
      Atom module_eval,
      inference_mode
        (Block [Atom (cc_assign_test_logits fw squeeze d),
                Atom (cc_assign_test_classification round_sigmoid),
                Atom (cc_assign_test_loss fw d)]),
      Atom (cc_print fw print_every epoch)]"

definition classification_loop ::
  "('p, 'x, 'y, 'o, 'l) framework \<Rightarrow> ('o \<Rightarrow> 'o) \<Rightarrow> ('o \<Rightarrow> 'c) \<Rightarrow> nat \<Rightarrow> nat \<Rightarrow> ('x, 'y) circles
     \<Rightarrow> ('p, 'o, 'c, 'l) classification prog" where
  "classification_loop fw squeeze round_sigmoid print_every epoch_count d =
     for_in (py_range epoch_count)
       (\<lambda>epoch. Block (classification_body fw squeeze round_sigmoid print_every d epoch))"

definition classification_start :: "'p \<Rightarrow> ('p, 'o, 'c, 'l) classification" where
  "classification_start model =
     \<lparr>params = model, grad = None, training = True, inference = False,
      cc_train_logits = None, cc_train_classification = None, cc_train_loss = None,
      cc_test_logits = None, cc_test_classification = None, cc_test_loss = None,
      cc_printed = []\<rparr>"

section \<open>Computer-vision notebook: the training cell\<close>

text \<open>
  \<^verbatim>\<open>
  for epoch in range(epoch_count):
      print(f"Epoch: {epoch}\n--------")
      train_loss = 0
      for batch, (train_input, train_output) in enumerate(train_dataloader):
          train_input, train_output = train_input.to(DEVICE), train_output.to(DEVICE)
          model.train()
          train_classification = model(train_input)
          loss = loss_function(train_classification, train_output)
          train_loss += loss
          optimizer.zero_grad()
          loss.backward()
          optimizer.step()
          if batch % 400 == 0:
              print(f"Looked at {batch * len(train_input)}/{len(train_dataloader.dataset)} samples")
      train_loss /= len(train_dataloader)
      test_loss, test_accuracy = 0, 0
      model.eval()
      with torch.inference_mode():
          for test_input, test_output in test_dataloader:
              test_input, test_output = test_input.to(DEVICE), test_output.to(DEVICE)
              test_classification = model(test_input)
              test_loss += loss_function(test_classification, test_output)
              test_accuracy += accuracy_function(test_output, test_classification.argmax(dim=1))
          test_loss /= len(test_dataloader)
          test_accuracy /= len(test_dataloader)
      print(f"\nTrain loss: {train_loss:.5f} | Test loss: {test_loss:.5f}, Test acc: {test_accuracy:.2f}%\n")
  \<close>
  A loader is the list of the batches it yields, a batch the pair of its inputs and its
  targets; the training loader shuffles, so it yields another list in every epoch. The
  length of a loader is the number of its batches, the length of its dataset the number
  of samples in them. The three accumulators hold numbers. \<open>DEVICE\<close> is the device the
  notebook chose for its machine, and a move to it returns the tensor as it is (lemma
  \<open>tensor_to_device\<close> below); the moves are left out. \<open>argmax\<close> and the accuracy of
  \<open>torchmetrics\<close> are parameters.
\<close>

datatype cv_line =
    Epoch_line nat
  | Looked_at nat nat
  | Summary_line real real real

record ('p, 'o, 'l) vision = "'p session" +
  cv_train_loss :: "real option"
  cv_train_classification :: "'o option"
  cv_loss :: "'l option"
  cv_test_loss :: "real option"
  cv_test_accuracy :: "real option"
  cv_test_classification :: "'o option"
  cv_printed :: "cv_line list"

definition cv_print_epoch :: "nat \<Rightarrow> ('p, 'o, 'l) vision stmt" where
  "cv_print_epoch epoch s = Inr (s\<lparr>cv_printed := cv_printed s @ [Epoch_line epoch]\<rparr>)"

definition cv_reset_train_loss :: "('p, 'o, 'l) vision stmt" where
  "cv_reset_train_loss s = Inr (s\<lparr>cv_train_loss := Some 0\<rparr>)"

definition cv_assign_train_classification ::
  "('p, 'x, 'y, 'o, 'l) framework \<Rightarrow> 'x list \<Rightarrow> ('p, 'o, 'l) vision stmt" where
  "cv_assign_train_classification fw train_input s =
     and_then (model_call fw (training s) (inference s) (params s) train_input) (\<lambda>t.
       Inr (s\<lparr>cv_train_classification := Some t\<rparr>))"

definition cv_assign_loss ::
  "('p, 'x, 'y, 'o, 'l) framework \<Rightarrow> 'y list \<Rightarrow> ('p, 'o, 'l) vision stmt" where
  "cv_assign_loss fw train_output s =
     and_then (the_var (cv_train_classification s)) (\<lambda>t.
     and_then (loss_function fw (inference s) t train_output) (\<lambda>l.
       Inr (s\<lparr>cv_loss := Some l\<rparr>)))"

definition cv_add_train_loss :: "('p, 'x, 'y, 'o, 'l) framework \<Rightarrow> ('p, 'o, 'l) vision stmt" where
  "cv_add_train_loss fw s =
     and_then (the_var (cv_train_loss s)) (\<lambda>a.
     and_then (the_var (cv_loss s)) (\<lambda>l.
       Inr (s\<lparr>cv_train_loss := Some (a + item fw l)\<rparr>)))"

definition cv_print_looked_at :: "nat \<Rightarrow> 'x list \<Rightarrow> nat \<Rightarrow> ('p, 'o, 'l) vision stmt" where
  "cv_print_looked_at batch train_input dataset_len s =
     (if batch mod 400 = 0
      then Inr (s\<lparr>cv_printed := cv_printed s @ [Looked_at (batch * length train_input) dataset_len]\<rparr>)
      else Inr s)"

definition cv_divide_train_loss :: "nat \<Rightarrow> ('p, 'o, 'l) vision stmt" where
  "cv_divide_train_loss n s =
     and_then (the_var (cv_train_loss s)) (\<lambda>a.
       if n = 0 then Inl ZeroDivisionError
       else Inr (s\<lparr>cv_train_loss := Some (a / real n)\<rparr>))"

definition cv_reset_test :: "('p, 'o, 'l) vision stmt" where
  "cv_reset_test s = Inr (s\<lparr>cv_test_loss := Some 0, cv_test_accuracy := Some 0\<rparr>)"

definition cv_assign_test_classification ::
  "('p, 'x, 'y, 'o, 'l) framework \<Rightarrow> 'x list \<Rightarrow> ('p, 'o, 'l) vision stmt" where
  "cv_assign_test_classification fw test_input s =
     and_then (model_call fw (training s) (inference s) (params s) test_input) (\<lambda>t.
       Inr (s\<lparr>cv_test_classification := Some t\<rparr>))"

definition cv_add_test_loss ::
  "('p, 'x, 'y, 'o, 'l) framework \<Rightarrow> 'y list \<Rightarrow> ('p, 'o, 'l) vision stmt" where
  "cv_add_test_loss fw test_output s =
     and_then (the_var (cv_test_loss s)) (\<lambda>a.
     and_then (the_var (cv_test_classification s)) (\<lambda>t.
     and_then (loss_function fw (inference s) t test_output) (\<lambda>l.
       Inr (s\<lparr>cv_test_loss := Some (a + item fw l)\<rparr>))))"

definition cv_add_test_accuracy ::
  "('o \<Rightarrow> 'c) \<Rightarrow> ('y list \<Rightarrow> 'c \<Rightarrow> error + real) \<Rightarrow> 'y list \<Rightarrow> ('p, 'o, 'l) vision stmt" where
  "cv_add_test_accuracy argmax accuracy test_output s =
     and_then (the_var (cv_test_accuracy s)) (\<lambda>a.
     and_then (the_var (cv_test_classification s)) (\<lambda>t.
     and_then (accuracy test_output (argmax t)) (\<lambda>r.
       Inr (s\<lparr>cv_test_accuracy := Some (a + r)\<rparr>))))"

definition cv_divide_test_loss :: "nat \<Rightarrow> ('p, 'o, 'l) vision stmt" where
  "cv_divide_test_loss n s =
     and_then (the_var (cv_test_loss s)) (\<lambda>a.
       if n = 0 then Inl ZeroDivisionError
       else Inr (s\<lparr>cv_test_loss := Some (a / real n)\<rparr>))"

definition cv_divide_test_accuracy :: "nat \<Rightarrow> ('p, 'o, 'l) vision stmt" where
  "cv_divide_test_accuracy n s =
     and_then (the_var (cv_test_accuracy s)) (\<lambda>a.
       if n = 0 then Inl ZeroDivisionError
       else Inr (s\<lparr>cv_test_accuracy := Some (a / real n)\<rparr>))"

definition cv_print_summary :: "('p, 'o, 'l) vision stmt" where
  "cv_print_summary s =
     and_then (the_var (cv_train_loss s)) (\<lambda>a.
     and_then (the_var (cv_test_loss s)) (\<lambda>b.
     and_then (the_var (cv_test_accuracy s)) (\<lambda>c.
       Inr (s\<lparr>cv_printed := cv_printed s @ [Summary_line a b c]\<rparr>))))"

definition vision_train_body ::
  "('p, 'x, 'y, 'o, 'l) framework \<Rightarrow> nat \<Rightarrow> nat \<Rightarrow> 'x list \<times> 'y list
     \<Rightarrow> ('p, 'o, 'l) vision prog list" where
  "vision_train_body fw dataset_len batch b =
     (case b of (train_input, train_output) \<Rightarrow>
        [Atom module_train,
         Atom (cv_assign_train_classification fw train_input),
         Atom (cv_assign_loss fw train_output),
         Atom (cv_add_train_loss fw),
         Atom zero_grad,
         Atom (tensor_backward fw cv_loss),
         Atom (optimizer_step fw),
         Atom (cv_print_looked_at batch train_input dataset_len)])"

definition vision_test_body ::
  "('p, 'x, 'y, 'o, 'l) framework \<Rightarrow> ('o \<Rightarrow> 'c) \<Rightarrow> ('y list \<Rightarrow> 'c \<Rightarrow> error + real)
     \<Rightarrow> 'x list \<times> 'y list \<Rightarrow> ('p, 'o, 'l) vision prog list" where
  "vision_test_body fw argmax accuracy b =
     (case b of (test_input, test_output) \<Rightarrow>
        [Atom (cv_assign_test_classification fw test_input),
         Atom (cv_add_test_loss fw test_output),
         Atom (cv_add_test_accuracy argmax accuracy test_output)])"

definition dataset_length :: "('x list \<times> 'y list) list \<Rightarrow> nat" where
  "dataset_length loader = sum_list (map (\<lambda>b. length (fst b)) loader)"

definition vision_body ::
  "('p, 'x, 'y, 'o, 'l) framework \<Rightarrow> ('o \<Rightarrow> 'c) \<Rightarrow> ('y list \<Rightarrow> 'c \<Rightarrow> error + real)
     \<Rightarrow> ('x list \<times> 'y list) list \<Rightarrow> ('x list \<times> 'y list) list \<Rightarrow> nat
     \<Rightarrow> ('p, 'o, 'l) vision prog list" where
  "vision_body fw argmax accuracy train_dataloader test_dataloader epoch =
     [Atom (cv_print_epoch epoch),
      Atom cv_reset_train_loss,
      for_in (enumerate 0 train_dataloader)
        (\<lambda>(batch, b). Block (vision_train_body fw (dataset_length train_dataloader) batch b)),
      Atom (cv_divide_train_loss (length train_dataloader)),
      Atom cv_reset_test,
      Atom module_eval,
      inference_mode
        (Block [for_in test_dataloader (\<lambda>b. Block (vision_test_body fw argmax accuracy b)),
                Atom (cv_divide_test_loss (length test_dataloader)),
                Atom (cv_divide_test_accuracy (length test_dataloader))]),
      Atom cv_print_summary]"

definition vision_loop ::
  "('p, 'x, 'y, 'o, 'l) framework \<Rightarrow> ('o \<Rightarrow> 'c) \<Rightarrow> ('y list \<Rightarrow> 'c \<Rightarrow> error + real) \<Rightarrow> nat
     \<Rightarrow> (nat \<Rightarrow> ('x list \<times> 'y list) list) \<Rightarrow> ('x list \<times> 'y list) list
     \<Rightarrow> ('p, 'o, 'l) vision prog" where
  "vision_loop fw argmax accuracy epoch_count train_dataloader test_dataloader =
     for_in (py_range epoch_count)
       (\<lambda>epoch. Block (vision_body fw argmax accuracy (train_dataloader epoch) test_dataloader epoch))"

definition vision_start :: "'p \<Rightarrow> ('p, 'o, 'l) vision" where
  "vision_start model =
     \<lparr>params = model, grad = None, training = True, inference = False,
      cv_train_loss = None, cv_train_classification = None, cv_loss = None,
      cv_test_loss = None, cv_test_accuracy = None, cv_test_classification = None,
      cv_printed = []\<rparr>"

section \<open>Workflow notebook: the cell that saves the model, as a program\<close>


section \<open>The training schema as the specification words it\<close>

text \<open>
  The specification describes every training loop as one schema: for each epoch, and
  for each batch where a loader is used, a forward pass over the training data, the loss
  against the true targets, \<open>optimizer.zero_grad()\<close>, \<open>loss.backward()\<close>,
  \<open>optimizer.step()\<close>, and then an evaluation pass on the test data under
  \<open>torch.inference_mode()\<close>. The definitions of this section follow these words, not a
  cell of a notebook. The schema acts on the parameters and their gradients; after
  \<open>zero_grad\<close> and \<open>backward\<close> the gradients are those of the loss just computed. The
  forward pass of the training step is that of a module in training mode that records
  its graph; the evaluation pass is that of a module in evaluation mode, inside
  \<open>torch.inference_mode()\<close>. The data of an epoch are the batches of the training data
  and those of the test data; data that no loader cuts are one batch.
\<close>

type_synonym 'p model_state = "'p \<times> 'p option"

definition model_of :: "('p, 'm) session_scheme \<Rightarrow> 'p model_state" where
  "model_of s = (params s, grad s)"

definition spec_training_step ::
  "('p, 'x, 'y, 'o, 'l) framework \<Rightarrow> 'x list \<Rightarrow> 'y list \<Rightarrow> 'p model_state stmt" where
  "spec_training_step fw x y st =
     and_then (model_call fw True False (fst st) x) (\<lambda>prediction.
     and_then (loss_function fw False prediction y) (\<lambda>l.
     and_then (backward fw l) (\<lambda>g.
     and_then (step fw (fst st) g) (\<lambda>p.
       Inr (p, Some g)))))"

definition spec_evaluation ::
  "('p, 'x, 'y, 'o, 'l) framework \<Rightarrow> 'x list \<Rightarrow> 'y list \<Rightarrow> 'p model_state stmt" where
  "spec_evaluation fw x y st =
     and_then (model_call fw False True (fst st) x) (\<lambda>test_prediction.
     and_then (loss_function fw True test_prediction y) (\<lambda>test_loss.
       Inr st))"

definition spec_training_epoch ::
  "('p, 'x, 'y, 'o, 'l) framework \<Rightarrow> ('x list \<times> 'y list) list \<Rightarrow> ('x list \<times> 'y list) list
     \<Rightarrow> 'p model_state stmt" where
  "spec_training_epoch fw train_batches test_batches =
     run [for_each train_batches (\<lambda>(x, y). spec_training_step fw x y),
          for_each test_batches (\<lambda>(x, y). spec_evaluation fw x y)]"

definition spec_training_loop ::
  "('p, 'x, 'y, 'o, 'l) framework \<Rightarrow> nat \<Rightarrow> (nat \<Rightarrow> ('x list \<times> 'y list) list)
     \<Rightarrow> ('x list \<times> 'y list) list \<Rightarrow> 'p model_state stmt" where
  "spec_training_loop fw epoch_count train_batches test_batches =
     for_each (py_range epoch_count)
       (\<lambda>epoch. spec_training_epoch fw (train_batches epoch) test_batches)"

text \<open>
  The classification notebook squeezes the output of the module before it computes the
  loss: its model, as the schema sees it, is the module followed by \<open>squeeze\<close>.
\<close>

definition squeezed ::
  "('p, 'x, 'y, 'o, 'l) framework \<Rightarrow> ('o \<Rightarrow> 'o) \<Rightarrow> ('p, 'x, 'y, 'o, 'l) framework" where
  "squeezed fw squeeze =
     fw\<lparr>model_call := \<lambda>mode inference_mode_on p x.
          and_then (model_call fw mode inference_mode_on p x) (\<lambda>t. Inr (squeeze t))\<rparr>"

section \<open>A framework to run the cells with\<close>

text \<open>
  \<^verbatim>\<open>
  sample_model = LinearRegressionModel()
  loss_function = nn.L1Loss()
  optimizer = torch.optim.SGD(params=sample_model.parameters(), lr=0.01)
  \<close>
  The cells are run below with the \<open>forward\<close> of the workflow notebook, the absolute
  error as the loss and plain stochastic gradient descent. The loss and the optimizer
  are the framework's, modelled from their documentation. The loss of the notebook
  takes the mean of the absolute errors, which is not a number on an empty tensor; the
  real numbers have no such value, so the loss here is the one with
  \<^verbatim>\<open>reduction="sum"\<close>, which is a number on every tensor. It broadcasts a tensor of one
  element against the other tensor and raises on any other pair of different lengths.
  Its gradient with respect to a prediction is the sign of the error. A step of the
  optimizer subtracts the gradient scaled by the learning rate. A prediction carries the
  input it was computed from and whether its graph was recorded, and a loss carries its
  gradients when it has a graph; \<open>backward\<close> on a loss without a graph raises.
\<close>

record prediction_tensor =
  pt_values :: "real list"
  pt_inputs :: "real list"
  pt_graph :: bool

record loss_tensor =
  lt_value :: real
  lt_grad :: "real LinearRegressionModel option"

definition broadcast :: "'a list \<Rightarrow> 'b list \<Rightarrow> error + ('a \<times> 'b) list" where
  "broadcast a b =
     (if length a = length b then Inr (zip a b)
      else if length a = 1 then Inr (map (\<lambda>y. (hd a, y)) b)
      else if length b = 1 then Inr (map (\<lambda>x. (x, hd b)) a)
      else Inl RuntimeError)"

definition L1Loss_sum :: "bool \<Rightarrow> prediction_tensor \<Rightarrow> real list \<Rightarrow> error + loss_tensor" where
  "L1Loss_sum inference_mode_on out ys =
     and_then (broadcast (zip (pt_values out) (pt_inputs out)) ys) (\<lambda>pairs.
       Inr \<lparr>lt_value = sum_list (map (\<lambda>((p, x), y). \<bar>p - y\<bar>) pairs),
            lt_grad =
              (if pt_graph out \<and> \<not> inference_mode_on
               then Some \<lparr>weight = sum_list (map (\<lambda>((p, x), y). sgn (p - y) * x) pairs),
                          bias = sum_list (map (\<lambda>((p, x), y). sgn (p - y)) pairs)\<rparr>
               else None)\<rparr>)"

definition loss_backward :: "loss_tensor \<Rightarrow> error + real LinearRegressionModel" where
  "loss_backward l = (case lt_grad l of None \<Rightarrow> Inl RuntimeError | Some g \<Rightarrow> Inr g)"

definition SGD ::
  "real \<Rightarrow> real LinearRegressionModel \<Rightarrow> real LinearRegressionModel
     \<Rightarrow> error + real LinearRegressionModel" where
  "SGD lr p g = Inr \<lparr>weight = weight p - lr * weight g, bias = bias p - lr * bias g\<rparr>"

definition linear_framework ::
  "real \<Rightarrow> (real LinearRegressionModel, real, real, prediction_tensor, loss_tensor) framework" where
  "linear_framework lr =
     \<lparr>model_call = (\<lambda>mode inference_mode_on m xs.
        Inr \<lparr>pt_values = forward m xs, pt_inputs = xs, pt_graph = \<not> inference_mode_on\<rparr>),
      loss_function = L1Loss_sum,
      backward = loss_backward,
      accumulate = (\<lambda>g h. \<lparr>weight = weight g + weight h, bias = bias g + bias h\<rparr>),
      step = SGD lr,
      item = lt_value\<rparr>"

section \<open>Properties\<close>

subsection \<open>The 80/20 split\<close>

lemma length_predictor: "length predictor = 50"
  by (simp add: predictor_def arange_def)

lemma length_target: "length target = 50"
  by (simp add: target_def length_predictor)

text \<open>
  C10. For a predictor and a target of 50 elements the cutoff is 40; the training slices
  have 40 elements and the testing slices the remaining 10; the training slice followed
  by the testing slice is the original sequence; the training slice is the segment of
  positions 0 to 39 and the testing slice the segment of positions 40 to 49, so that no
  position is in both; where the elements are pairwise different, no element is in both.
\<close>

theorem split_partition:
  assumes "length xs = 50" and "length ys = 50"
  shows "train_cutoff xs = 40
       \<and> length (train_predictor (split_cell xs ys)) = 40
       \<and> length (test_predictor (split_cell xs ys)) = 10
       \<and> length (train_target (split_cell xs ys)) = 40
       \<and> length (test_target (split_cell xs ys)) = 10
       \<and> train_predictor (split_cell xs ys) @ test_predictor (split_cell xs ys) = xs
       \<and> train_target (split_cell xs ys) @ test_target (split_cell xs ys) = ys
       \<and> (\<forall>i<40. train_predictor (split_cell xs ys) ! i = xs ! i
               \<and> train_target (split_cell xs ys) ! i = ys ! i)
       \<and> (\<forall>j<10. test_predictor (split_cell xs ys) ! j = xs ! (40 + j)
               \<and> test_target (split_cell xs ys) ! j = ys ! (40 + j))
       \<and> (distinct xs \<longrightarrow>
            set (train_predictor (split_cell xs ys)) \<inter> set (test_predictor (split_cell xs ys)) = {})
       \<and> (distinct ys \<longrightarrow>
            set (train_target (split_cell xs ys)) \<inter> set (test_target (split_cell xs ys)) = {})"
proof -
  have c: "train_cutoff xs = 40"
    using assms(1) by (simp add: train_cutoff_def)
  have dx: "distinct xs \<longrightarrow> set (take 40 xs) \<inter> set (drop 40 xs) = {}"
    by (simp add: set_take_disj_set_drop_if_distinct)
  have dy: "distinct ys \<longrightarrow> set (take 40 ys) \<inter> set (drop 40 ys) = {}"
    by (simp add: set_take_disj_set_drop_if_distinct)
  show ?thesis
    using assms dx dy by (simp add: split_cell_def c)
qed

lemma distinct_predictor: "distinct predictor"
  by (simp add: predictor_def arange_def distinct_map inj_on_def)

lemma distinct_target: "distinct target"
  using distinct_predictor
  by (simp add: target_def distinct_map inj_on_def true_weight_def)

theorem split_partition_witness:
  "length predictor = 50 \<and> length target = 50 \<and> distinct predictor \<and> distinct target
   \<and> train_cutoff predictor = 40
   \<and> train_predictor (split_cell predictor target) @ test_predictor (split_cell predictor target)
       = predictor
   \<and> train_target (split_cell predictor target) @ test_target (split_cell predictor target)
       = target
   \<and> set (train_predictor (split_cell predictor target))
       \<inter> set (test_predictor (split_cell predictor target)) = {}
   \<and> set (train_target (split_cell predictor target))
       \<inter> set (test_target (split_cell predictor target)) = {}"
  using split_partition [OF length_predictor length_target]
    length_predictor length_target distinct_predictor distinct_target
  by simp

subsection \<open>The accuracy function\<close>

lemma tensor_sum_item_filter: "tensor_sum_item bs = length (filter (\<lambda>b. b) bs)"
  by (induction bs) (simp_all add: tensor_sum_item_def)

lemma correct_card:
  assumes "length a = length b"
  shows "tensor_sum_item (map (\<lambda>(x, y). x = y) (zip a b))
         = card {i. i < length a \<and> a ! i = b ! i}"
proof -
  have "tensor_sum_item (map (\<lambda>(x, y). x = y) (zip a b))
        = length (filter (\<lambda>(x, y). x = y) (zip a b))"
    by (simp add: tensor_sum_item_filter filter_map comp_def case_prod_unfold)
  also have "\<dots> = card {i. i < length (zip a b) \<and> (\<lambda>(x, y). x = y) (zip a b ! i)}"
    by (rule length_filter_conv_card)
  also have "{i. i < length (zip a b) \<and> (\<lambda>(x, y). x = y) (zip a b ! i)}
             = {i. i < length a \<and> a ! i = b ! i}"
    using assms by auto
  finally show ?thesis .
qed

lemma card_agree_le: "card {i. i < n \<and> P i} \<le> n"
proof -
  have "card {i. i < n \<and> P i} \<le> card {..<n}"
    by (rule card_mono) auto
  then show ?thesis by simp
qed

lemma card_agree_full: "card {i. i < n \<and> P i} = n \<longleftrightarrow> (\<forall>i<n. P i)"
proof
  assume h: "card {i. i < n \<and> P i} = n"
  have "{i. i < n \<and> P i} = {..<n}"
    by (rule card_subset_eq) (use h in auto)
  then show "\<forall>i<n. P i" by auto
next
  assume "\<forall>i<n. P i"
  then have "{i. i < n \<and> P i} = {..<n}" by auto
  then show "card {i. i < n \<and> P i} = n" by simp
qed

text \<open>
  C9. For two tensors \<open>a\<close> and \<open>b\<close> of the same length, not empty, \<open>accuracy_function\<close>
  returns 100 times the number of positions where they are equal, divided by the length.
  The result is between 0 and 100, it is 100 exactly when the tensors agree at every
  position, and it is the same when the arguments are exchanged.
\<close>

theorem accuracy_function_fraction:
  assumes "length a = length b" and "a \<noteq> []"
  shows "\<exists>r. accuracy_function a b = Inr r
           \<and> r = 100 * (of_nat (card {i. i < length a \<and> a ! i = b ! i}) / of_nat (length a))
           \<and> 0 \<le> r \<and> r \<le> 100
           \<and> (r = 100 \<longleftrightarrow> (\<forall>i<length a. a ! i = b ! i))
           \<and> accuracy_function b a = Inr r"
proof -
  let ?n = "length a"
  let ?c = "card {i. i < ?n \<and> a ! i = b ! i}"
  let ?r = "100 * (real ?c / real ?n)"
  have n: "0 < ?n" using assms(2) by simp
  have ab: "accuracy_function a b = Inr ?r"
    using assms n by (simp add: accuracy_function_def torch_eq_def correct_card)
  have sym: "{i. i < length b \<and> b ! i = a ! i} = {i. i < ?n \<and> a ! i = b ! i}"
    using assms(1) by auto
  have ba: "accuracy_function b a = Inr ?r"
    using assms n by (simp add: accuracy_function_def torch_eq_def correct_card sym)
  have le: "?c \<le> ?n" by (rule card_agree_le)
  have r0: "0 \<le> ?r" by simp
  have r100: "?r \<le> 100"
    using le n by (simp add: divide_le_eq)
  have "?r = 100 \<longleftrightarrow> ?c = ?n"
    using n by (simp add: field_simps)
  then have full: "?r = 100 \<longleftrightarrow> (\<forall>i<?n. a ! i = b ! i)"
    by (simp add: card_agree_full)
  show ?thesis
    using ab ba r0 r100 full by blast
qed

theorem accuracy_function_fraction_witness:
  "length [1, 0, 1 :: int] = length [1, 1, 1 :: int] \<and> [1, 0, 1 :: int] \<noteq> []
   \<and> accuracy_function [1, 0, 1 :: int] [1, 1, 1] = Inr (200 / 3)
   \<and> accuracy_function [1, 1, 1] [1, 0, 1 :: int] = Inr (200 / 3)"
proof -
  have len: "length [1, 0, 1 :: int] = length [1, 1, 1 :: int]" by simp
  have ne: "[1, 0, 1 :: int] \<noteq> []" by simp
  show ?thesis
    using accuracy_function_fraction [OF len ne]
    by (simp add: accuracy_function_def torch_eq_def tensor_sum_item_def)
qed

subsection \<open>Saving and reloading the model\<close>

lemma mkdir_model_path:
  "mkdir model_path True True fs =
     (case fs model_path of
        None \<Rightarrow> Inr (fs(model_path \<mapsto> Dir))
      | Some Dir \<Rightarrow> Inr fs
      | Some (File b) \<Rightarrow> Inl FileExistsError)"
  by (subst mkdir.simps)
     (simp add: os_mkdir_def node_at_def model_path_def Path_def parent_def is_dir_def
        split: option.splits node.splits)

lemma load_state_dict_state_dict: "load_state_dict fresh (state_dict m) = Inr m"
  by (simp add: load_state_dict_def state_dict_def parameter_names_def)

lemma save_cell_cases:
  assumes "save_cell pickle m fs = Inr fs'"
  shows "fs' = (fs(model_path \<mapsto> Dir))
                 (joinpath model_path ''linear_regressor.pth'' \<mapsto> File (pickle (state_dict m)))"
proof -
  obtain fs1 where mk: "mkdir model_path True True fs = Inr fs1"
    and sv: "torch_save pickle (state_dict m) (joinpath model_path ''linear_regressor.pth'') fs1
             = Inr fs'"
    using assms by (cases "mkdir model_path True True fs") (simp_all add: save_cell_def)
  have fs1: "fs1 = fs(model_path \<mapsto> Dir)"
    using mk by (auto simp: mkdir_model_path split: option.splits node.splits)
  have "fs' = fs1(joinpath model_path ''linear_regressor.pth'' \<mapsto> File (pickle (state_dict m)))"
    using sv by (auto simp: torch_save_def split: option.splits node.splits)
  then show ?thesis using fs1 by simp
qed

text \<open>
  C1. The save cell writes one file, which holds the serialised state dictionary of the
  model and nothing else, and leaves every path other than the directory and that file
  as it was. Where the framework's serialiser gives the dictionary back, loading it into
  a newly constructed model, whatever its random initial parameters, gives the saved
  model: the reload cell returns, and the reloaded model predicts on every input what the
  saved model predicts.
\<close>

theorem state_dict_round_trip:
  assumes pickling: "unpickle (pickle (state_dict sample_model)) = Inr (state_dict sample_model)"
      and saved: "save_cell pickle sample_model fs = Inr fs'"
  shows "fs' (joinpath model_path ''linear_regressor.pth'')
           = Some (File (pickle (state_dict sample_model)))
       \<and> (\<forall>p. p \<noteq> model_path \<and> p \<noteq> joinpath model_path ''linear_regressor.pth''
               \<longrightarrow> fs' p = fs p)
       \<and> load_state_dict (LinearRegressionModel_init w0 b0) (state_dict sample_model)
           = Inr sample_model
       \<and> (\<exists>trained_model.
             reload_cell unpickle w0 b0 new_predictor fs'
               = Inr (trained_model, forward trained_model new_predictor)
           \<and> (\<forall>xs. forward trained_model xs = forward sample_model xs))"
proof -
  have written: "fs' (joinpath model_path ''linear_regressor.pth'')
                 = Some (File (pickle (state_dict sample_model)))"
    by (simp add: save_cell_cases [OF saved])
  have others: "\<forall>p. p \<noteq> model_path \<and> p \<noteq> joinpath model_path ''linear_regressor.pth''
                  \<longrightarrow> fs' p = fs p"
    by (simp add: save_cell_cases [OF saved])
  have loaded: "torch_load unpickle (joinpath model_path ''linear_regressor.pth'') fs'
                = Inr (state_dict sample_model)"
    using written pickling by (simp add: torch_load_def node_at_def joinpath_def)
  have "reload_cell unpickle w0 b0 new_predictor fs'
        = Inr (sample_model, forward sample_model new_predictor)"
    by (simp add: reload_cell_def loaded load_state_dict_state_dict)
  then show ?thesis
    using written others by (simp add: load_state_dict_state_dict)
qed

theorem state_dict_round_trip_witness:
  "save_cell (\<lambda>sd. sd) \<lparr>weight = 3 :: int, bias = 4\<rparr> Map.empty
     = Inr [[''models''] \<mapsto> Dir,
            [''models'', ''linear_regressor.pth''] \<mapsto> File [(''_weight'', 3), (''_bias'', 4)]]
   \<and> reload_cell Inr 0 0 [1, 2]
        [[''models''] \<mapsto> Dir,
         [''models'', ''linear_regressor.pth''] \<mapsto> File [(''_weight'', 3 :: int), (''_bias'', 4)]]
     = Inr (\<lparr>weight = 3, bias = 4\<rparr>, [7, 10])"
proof -
  have saved: "save_cell (\<lambda>sd. sd) \<lparr>weight = 3 :: int, bias = 4\<rparr> Map.empty
     = Inr [[''models''] \<mapsto> Dir,
            [''models'', ''linear_regressor.pth''] \<mapsto> File [(''_weight'', 3), (''_bias'', 4)]]"
    by (simp add: save_cell_def mkdir_model_path)
       (simp add: node_at_def model_path_def Path_def parent_def torch_save_def joinpath_def
          state_dict_def)
  have pickling: "Inr ((\<lambda>sd. sd) (state_dict \<lparr>weight = 3 :: int, bias = 4\<rparr>))
                  = (Inr (state_dict \<lparr>weight = 3 :: int, bias = 4\<rparr>) :: error + int state_dict)"
    by simp
  have reloaded: "reload_cell Inr 0 0 [1, 2]
        [[''models''] \<mapsto> Dir,
         [''models'', ''linear_regressor.pth''] \<mapsto> File [(''_weight'', 3 :: int), (''_bias'', 4)]]
     = Inr (\<lparr>weight = 3, bias = 4\<rparr>, [7, 10])"
    by (simp add: reload_cell_def torch_load_def node_at_def joinpath_def model_path_def Path_def
          load_state_dict_def parameter_names_def LinearRegressionModel_init_def forward_def)
  show ?thesis
    using state_dict_round_trip [of Inr "\<lambda>sd. sd" "\<lparr>weight = 3 :: int, bias = 4\<rparr>",
        OF pickling saved, of 0 0 "[1, 2]"] saved reloaded
    by simp
qed

subsection \<open>Sequencing\<close>

lemma and_then_Inr_iff: "and_then m f = Inr y \<longleftrightarrow> (\<exists>x. m = Inr x \<and> f x = Inr y)"
  by (cases m) simp_all

lemma and_then_case: "and_then m f = (case m of Inl e \<Rightarrow> Inl e | Inr x \<Rightarrow> f x)"
  by (cases m) simp_all

lemma and_then_assoc: "and_then (and_then m f) g = and_then m (\<lambda>x. and_then (f x) g)"
  by (cases m) simp_all

lemma and_then_Inr: "and_then m Inr = m"
  by (cases m) simp_all

lemma run_Nil: "run [] = Inr"
  by (rule ext) simp


lemma run_map_for_each: "run (map f xs) = for_each xs f"
proof
  fix s show "run (map f xs) s = for_each xs f s"
    by (induction xs arbitrary: s) (simp_all add: and_then_case split: sum.splits)
qed

text \<open>A program that is run as a statement, by its constructors.\<close>

lemma run_cell_Atom: "run_cell (Atom c) = c"
  by (rule ext) (simp add: run_cell_def split: sum.splits)

lemma exec_seq_run:
  "(case exec_seq (map exec ps) s of (s', None) \<Rightarrow> Inr s' | (s', Some e) \<Rightarrow> Inl e)
   = run (map run_cell ps) s"
proof (induction ps arbitrary: s)
  case Nil
  then show ?case by simp
next
  case (Cons p ps)
  show ?case
  proof (cases "exec p s")
    case (Pair s' r)
    then show ?thesis using Cons.IH [of s'] by (cases r) (simp_all add: run_cell_def)
  qed
qed

lemma run_cell_Block: "run_cell (Block ps) = run (map run_cell ps)"
  using exec_seq_run [of ps] by (intro ext) (simp add: run_cell_def)

lemma run_cell_for_in: "run_cell (for_in xs body) = for_each xs (\<lambda>x. run_cell (body x))"
  by (simp add: for_in_def run_cell_Block run_map_for_each [symmetric] comp_def)

lemma run_cell_inference_mode:
  "run_cell (inference_mode body)
   = (\<lambda>s. and_then (run_cell body (s\<lparr>inference := True\<rparr>))
                   (\<lambda>s'. Inr (s'\<lparr>inference := inference s\<rparr>)))"
  by (rule ext) (simp add: inference_mode_def run_cell_def split: prod.splits option.splits)

lemmas run_cell_simps = run_cell_Atom run_cell_Block run_cell_for_in run_cell_inference_mode

text \<open>
  A loop whose body, on variables that satisfy \<open>holds\<close>, does to a part \<open>proj\<close> of the
  variables what \<open>body'\<close> does, and keeps \<open>holds\<close>, does to that part what the loop of
  \<open>body'\<close> does.
\<close>

lemma for_each_refines:
  assumes "holds s"
    and "\<And>x s. x \<in> set xs \<Longrightarrow> holds s \<Longrightarrow> map_result proj (body x s) = body' (g x) (proj s)"
    and "\<And>x s s'. x \<in> set xs \<Longrightarrow> holds s \<Longrightarrow> body x s = Inr s' \<Longrightarrow> holds s'"
  shows "map_result proj (for_each xs body s) = for_each (map g xs) body' (proj s)
         \<and> (\<forall>s'. for_each xs body s = Inr s' \<longrightarrow> holds s')"
  using assms
proof (induction xs arbitrary: s)
  case Nil
  then show ?case by simp
next
  case (Cons x xs)
  have head: "map_result proj (body x s) = body' (g x) (proj s)"
    using Cons.prems(2) [of x s] Cons.prems(1) by simp
  show ?case
  proof (cases "body x s")
    case (Inl e)
    then show ?thesis using head by (cases "body' (g x) (proj s)") auto
  next
    case (Inr s1)
    then have first: "body' (g x) (proj s) = Inr (proj s1)" using head by simp
    have kept: "holds s1" using Cons.prems(3) [of x s s1] Cons.prems(1) Inr by simp
    have "map_result proj (for_each xs body s1) = for_each (map g xs) body' (proj s1)
         \<and> (\<forall>s'. for_each xs body s1 = Inr s' \<longrightarrow> holds s')"
    proof (rule Cons.IH)
      show "holds s1" by (rule kept)
    next
      fix y t
      assume "y \<in> set xs" and "holds t"
      then show "map_result proj (body y t) = body' (g y) (proj t)"
        using Cons.prems(2) [of y t] by simp
    next
      fix y t t'
      assume "y \<in> set xs" and "holds t" and "body y t = Inr t'"
      then show "holds t'"
        using Cons.prems(3) [of y t t'] by simp
    qed
    then show ?thesis using Inr first by simp
  qed
qed

lemma loop_refines:
  assumes start: "holds s"
    and epoch: "\<And>epoch s. epoch < n \<Longrightarrow> holds s \<Longrightarrow>
        map_result proj (run_cell (body epoch) s) = schema epoch (proj s)
        \<and> (\<forall>s'. run_cell (body epoch) s = Inr s' \<longrightarrow> holds s')"
  shows "map_result proj (run_cell (for_in (py_range n) body) s)
         = for_each (py_range n) schema (proj s)"
proof -
  have "map_result proj (for_each (py_range n) (\<lambda>epoch. run_cell (body epoch)) s)
          = for_each (map (\<lambda>epoch. epoch) (py_range n)) schema (proj s)
        \<and> (\<forall>s'. for_each (py_range n) (\<lambda>epoch. run_cell (body epoch)) s = Inr s' \<longrightarrow> holds s')"
  proof (rule for_each_refines [where holds = holds])
    show "holds s" by (rule start)
  next
    fix x t
    assume "x \<in> set (py_range n)" and "holds t"
    then show "map_result proj (run_cell (body x) t) = schema x (proj t)"
      using epoch [of x t] by (simp add: py_range_def)
  next
    fix x t t'
    assume "x \<in> set (py_range n)" and "holds t" and "run_cell (body x) t = Inr t'"
    then show "holds t'"
      using epoch [of x t] by (simp add: py_range_def)
  qed
  then show ?thesis by (simp add: run_cell_for_in)
qed

subsection \<open>The training loops and the schema\<close>

text \<open>
  An epoch of the workflow cell and of the classification cell, started outside
  \<open>torch.inference_mode()\<close>, does to the parameters and their gradients what an epoch of
  the schema does on one training batch and one test batch, fails where it fails, and
  ends outside \<open>torch.inference_mode()\<close>.
\<close>

lemma workflow_epoch_refines:
  assumes "\<not> inference s"
  shows "map_result model_of (run_cell (Block (workflow_body fw d)) s)
   = spec_training_epoch fw [(train_predictor d, train_target d)]
       [(test_predictor d, test_target d)] (model_of s)
   \<and> (\<forall>s'. run_cell (Block (workflow_body fw d)) s = Inr s' \<longrightarrow> \<not> inference s')"
  using assms
  by (auto simp add: run_cell_simps workflow_body_def spec_training_epoch_def
      spec_training_step_def spec_evaluation_def model_of_def module_train_def module_eval_def
      zero_grad_def wf_assign_prediction_def wf_assign_loss_def tensor_backward_def
      optimizer_step_def wf_assign_test_prediction_def wf_assign_test_loss_def
      wf_append_train_losses_def wf_append_test_losses_def the_var_def and_then_case
      split: sum.splits)

lemma classification_epoch_refines:
  assumes "\<not> inference s" and "0 < print_every"
  shows "map_result model_of
           (run_cell (Block (classification_body fw squeeze round_sigmoid print_every d epoch)) s)
   = spec_training_epoch (squeezed fw squeeze) [(cc_train_input d, cc_train_output d)]
       [(cc_test_input d, cc_test_output d)] (model_of s)
   \<and> (\<forall>s'. run_cell (Block (classification_body fw squeeze round_sigmoid print_every d epoch)) s
              = Inr s' \<longrightarrow> \<not> inference s')"
  using assms
  by (auto simp add: run_cell_simps classification_body_def spec_training_epoch_def
      spec_training_step_def spec_evaluation_def model_of_def module_train_def module_eval_def
      zero_grad_def cc_assign_train_logits_def cc_assign_train_classification_def
      cc_assign_train_loss_def tensor_backward_def optimizer_step_def cc_assign_test_logits_def
      cc_assign_test_classification_def cc_assign_test_loss_def cc_print_def squeezed_def
      the_var_def and_then_case
      split: sum.splits)

lemma workflow_loop_refines:
  assumes "\<not> inference s"
  shows "map_result model_of (run_cell (workflow_loop fw n d) s)
   = spec_training_loop fw n (\<lambda>epoch. [(train_predictor d, train_target d)])
       [(test_predictor d, test_target d)] (model_of s)"
  unfolding workflow_loop_def spec_training_loop_def
  by (rule loop_refines [where holds = "\<lambda>s. \<not> inference s"])
     (use assms workflow_epoch_refines in blast)+

lemma classification_loop_refines:
  fixes s :: "('p, 'o, 'c, 'l) classification"
  assumes "\<not> inference s" and "0 < print_every"
  shows "map_result model_of
           (run_cell (classification_loop fw squeeze round_sigmoid print_every n d) s)
   = spec_training_loop (squeezed fw squeeze) n (\<lambda>epoch. [(cc_train_input d, cc_train_output d)])
       [(cc_test_input d, cc_test_output d)] (model_of s)"
  unfolding classification_loop_def spec_training_loop_def
proof (rule loop_refines [where holds = "\<lambda>s. \<not> inference s"])
  show "\<not> inference s" by (rule assms(1))
next
  fix epoch and t :: "('p, 'o, 'c, 'l) classification"
  assume "\<not> inference t"
  then show "map_result model_of
          (run_cell (Block (classification_body fw squeeze round_sigmoid print_every d epoch)) t)
        = spec_training_epoch (squeezed fw squeeze) [(cc_train_input d, cc_train_output d)]
           [(cc_test_input d, cc_test_output d)] (model_of t)
        \<and> (\<forall>s'. run_cell (Block (classification_body fw squeeze round_sigmoid print_every d epoch)) t
              = Inr s' \<longrightarrow> \<not> inference s')"
    using assms(2) by (rule classification_epoch_refines)
qed

text \<open>
  The computer-vision cell. A training batch, run outside \<open>torch.inference_mode()\<close> with
  the accumulator of the epoch assigned, is a training step of the schema. A test batch,
  run in evaluation mode inside \<open>torch.inference_mode()\<close> with the accumulators
  assigned, is an evaluation of the schema where the accuracy returns on what the model
  returns for the batch.
\<close>

lemma vision_train_batch_refines:
  assumes "\<not> inference s \<and> cv_train_loss s \<noteq> None"
  shows "map_result model_of (run_cell (Block (vision_train_body fw n batch b)) s)
           = (case b of (x, y) \<Rightarrow> spec_training_step fw x y) (model_of s)
         \<and> (\<forall>s'. run_cell (Block (vision_train_body fw n batch b)) s = Inr s'
               \<longrightarrow> \<not> inference s' \<and> cv_train_loss s' \<noteq> None)"
  using assms
  by (cases b)
     (auto simp: run_cell_simps vision_train_body_def spec_training_step_def model_of_def
        module_train_def zero_grad_def cv_assign_train_classification_def cv_assign_loss_def
        cv_add_train_loss_def tensor_backward_def optimizer_step_def cv_print_looked_at_def
        the_var_def and_then_case
      split: sum.splits)

lemma vision_test_batch_refines:
  assumes "inference s \<and> \<not> training s \<and> cv_train_loss s \<noteq> None \<and> cv_test_loss s \<noteq> None
           \<and> cv_test_accuracy s \<noteq> None"
    and "\<forall>p t. model_call fw False True p (fst b) = Inr t
           \<longrightarrow> (\<exists>r. accuracy (snd b) (argmax t) = Inr r)"
  shows "map_result model_of (run_cell (Block (vision_test_body fw argmax accuracy b)) s)
           = (case b of (x, y) \<Rightarrow> spec_evaluation fw x y) (model_of s)
         \<and> (\<forall>s'. run_cell (Block (vision_test_body fw argmax accuracy b)) s = Inr s'
               \<longrightarrow> inference s' \<and> \<not> training s' \<and> cv_train_loss s' \<noteq> None
                   \<and> cv_test_loss s' \<noteq> None \<and> cv_test_accuracy s' \<noteq> None)"
proof (cases b)
  case (Pair x y)
  obtain a l k where vars: "cv_test_loss s = Some a" "cv_test_accuracy s = Some l"
    "cv_train_loss s = Some k"
    using assms(1) by auto
  have modes: "inference s" "\<not> training s"
    using assms(1) by auto
  show ?thesis
  proof (cases "model_call fw False True (params s) x")
    case (Inl e)
    then show ?thesis
      using Pair vars modes
      by (simp add: run_cell_simps vision_test_body_def spec_evaluation_def model_of_def
          cv_assign_test_classification_def)
  next
    case out: (Inr t)
    show ?thesis
    proof (cases "loss_function fw True t y")
      case (Inl e)
      then show ?thesis
        using Pair vars modes out
        by (simp add: run_cell_simps vision_test_body_def spec_evaluation_def model_of_def
            cv_assign_test_classification_def cv_add_test_loss_def the_var_def)
    next
      case (Inr tl)
      have "\<exists>r. accuracy y (argmax t) = Inr r"
        using assms(2) [rule_format, of "params s" t] out Pair by simp
      then obtain r where "accuracy y (argmax t) = Inr r" ..
      then show ?thesis
        using Pair vars modes out Inr
        by (simp add: run_cell_simps vision_test_body_def spec_evaluation_def model_of_def
            cv_assign_test_classification_def cv_add_test_loss_def cv_add_test_accuracy_def
            the_var_def)
    qed
  qed
qed

lemma map_snd_enumerate: "map snd (enumerate n xs) = xs"
  by (simp add: enumerate_eq_zip)

lemma for_each_evaluation:
  assumes "for_each bs (\<lambda>(x, y). spec_evaluation fw x y) st = Inr st'"
  shows "st' = st"
  using assms
proof (induction bs arbitrary: st)
  case Nil
  then show ?case by simp
next
  case (Cons b bs)
  obtain x y where b: "b = (x, y)" by (cases b)
  from Cons.prems obtain st1 where 1: "spec_evaluation fw x y st = Inr st1"
    and 2: "for_each bs (\<lambda>(x, y). spec_evaluation fw x y) st1 = Inr st'"
    by (auto simp: b and_then_Inr_iff)
  have "st1 = st"
    using 1 by (auto simp: spec_evaluation_def and_then_Inr_iff)
  then show ?case using Cons.IH 2 by simp
qed

text \<open>
  An epoch of the computer-vision cell, with at least one batch in each loader, is an
  epoch of the schema on the batches of the loaders.
\<close>

lemma vision_epoch_refines:
  fixes s :: "('p, 'o, 'l) vision" and fw :: "('p, 'x, 'y, 'o, 'l) framework"
  assumes start: "\<not> inference s"
    and train: "train_dataloader \<noteq> []"
    and test: "test_dataloader \<noteq> []"
    and metric: "\<forall>b \<in> set test_dataloader. \<forall>p t. model_call fw False True p (fst b) = Inr t
           \<longrightarrow> (\<exists>r. accuracy (snd b) (argmax t) = Inr r)"
  shows "map_result model_of
           (run_cell (Block (vision_body fw argmax accuracy train_dataloader test_dataloader epoch)) s)
           = spec_training_epoch fw train_dataloader test_dataloader (model_of s)
         \<and> (\<forall>s'. run_cell (Block (vision_body fw argmax accuracy train_dataloader
                     test_dataloader epoch)) s = Inr s' \<longrightarrow> \<not> inference s')"
proof -
  let ?n = "dataset_length train_dataloader"
  let ?train = "for_each (enumerate 0 train_dataloader)
        (\<lambda>x. run_cell (case x of (batch, b) \<Rightarrow> Block (vision_train_body fw ?n batch b)))"
  let ?test = "for_each test_dataloader
        (\<lambda>b. run_cell (Block (vision_test_body fw argmax accuracy b)))"
  let ?step = "\<lambda>(x, y). spec_training_step fw x y"
  let ?eval = "\<lambda>(x, y). spec_evaluation fw x y"
  let ?cell = "run_cell (Block (vision_body fw argmax accuracy train_dataloader
                 test_dataloader epoch))"
  define s2 where "s2 = s\<lparr>cv_printed := cv_printed s @ [Epoch_line epoch], cv_train_loss := Some 0\<rparr>"
  have body: "?cell s
    = and_then (?train s2) (run
        [cv_divide_train_loss (length train_dataloader),
         cv_reset_test,
         module_eval,
         (\<lambda>s. and_then
            (run [?test, cv_divide_test_loss (length test_dataloader),
                  cv_divide_test_accuracy (length test_dataloader)] (s\<lparr>inference := True\<rparr>))
            (\<lambda>s'. Inr (s'\<lparr>inference := inference s\<rparr>))),
         cv_print_summary])"
    by (simp add: vision_body_def run_cell_simps cv_print_epoch_def cv_reset_train_loss_def
        s2_def comp_def)
  have s2: "\<not> inference s2 \<and> cv_train_loss s2 \<noteq> None" "model_of s2 = model_of s"
    using start by (simp_all add: s2_def model_of_def)
  have trained: "map_result model_of (?train s2)
          = for_each (map snd (enumerate 0 train_dataloader)) ?step (model_of s2)
        \<and> (\<forall>s'. ?train s2 = Inr s' \<longrightarrow> \<not> inference s' \<and> cv_train_loss s' \<noteq> None)"
  proof (rule for_each_refines [where holds = "\<lambda>s. \<not> inference s \<and> cv_train_loss s \<noteq> None"])
    show "\<not> inference s2 \<and> cv_train_loss s2 \<noteq> None" by (rule s2(1))
  next
    fix x :: "nat \<times> 'x list \<times> 'y list" and t :: "('p, 'o, 'l) vision"
    assume t: "\<not> inference t \<and> cv_train_loss t \<noteq> None"
    obtain batch b where x: "x = (batch, b)" by (cases x)
    have "map_result model_of (run_cell (Block (vision_train_body fw ?n batch b)) t)
            = ?step b (model_of t)"
      by (rule vision_train_batch_refines [OF t, THEN conjunct1])
    then show "map_result model_of
                 (run_cell (case x of (batch, b) \<Rightarrow> Block (vision_train_body fw ?n batch b)) t)
            = ?step (snd x) (model_of t)"
      by (simp only: x prod.case snd_conv)
  next
    fix x :: "nat \<times> 'x list \<times> 'y list" and t t' :: "('p, 'o, 'l) vision"
    assume t: "\<not> inference t \<and> cv_train_loss t \<noteq> None"
      and ran: "run_cell (case x of (batch, b) \<Rightarrow> Block (vision_train_body fw ?n batch b)) t = Inr t'"
    obtain batch b where x: "x = (batch, b)" by (cases x)
    have "run_cell (Block (vision_train_body fw ?n batch b)) t = Inr t'"
      using ran by (simp only: x prod.case)
    then show "\<not> inference t' \<and> cv_train_loss t' \<noteq> None"
      by (rule vision_train_batch_refines [OF t, THEN conjunct2, rule_format])
  qed
  show ?thesis
  proof (cases "?train s2")
    case (Inl e)
    then have "for_each train_dataloader ?step (model_of s) = Inl e"
      using trained s2(2) by (cases "for_each train_dataloader ?step (model_of s)")
        (simp_all add: map_snd_enumerate)
    then show ?thesis
      using Inl by (simp add: body spec_training_epoch_def)
  next
    case (Inr s3)
    then have schema3: "for_each train_dataloader ?step (model_of s) = Inr (model_of s3)"
      using trained s2(2) by (simp add: map_snd_enumerate)
    have s3: "\<not> inference s3" "cv_train_loss s3 \<noteq> None"
      using trained Inr by auto
    then obtain a where a: "cv_train_loss s3 = Some a" by auto
    define s6 where "s6 = s3\<lparr>cv_train_loss := Some (a / real (length train_dataloader)),
        cv_test_loss := Some 0, cv_test_accuracy := Some 0, training := False, inference := True\<rparr>"
    have s6: "inference s6 \<and> \<not> training s6 \<and> cv_train_loss s6 \<noteq> None \<and> cv_test_loss s6 \<noteq> None
              \<and> cv_test_accuracy s6 \<noteq> None"
      "model_of s6 = model_of s3"
      by (simp_all add: s6_def model_of_def)
    have rest: "?cell s
      = and_then (and_then (?test s6) (run [cv_divide_test_loss (length test_dataloader),
                  cv_divide_test_accuracy (length test_dataloader)]))
          (\<lambda>s'. cv_print_summary (s'\<lparr>inference := False\<rparr>))"
      using train a s3(1)
      by (simp add: body Inr cv_divide_train_loss_def cv_reset_test_def module_eval_def
          the_var_def s6_def and_then_assoc and_then_Inr run_Nil)
    have tested: "map_result model_of (?test s6)
          = for_each (map (\<lambda>b. b) test_dataloader) ?eval (model_of s6)
        \<and> (\<forall>s'. ?test s6 = Inr s' \<longrightarrow> inference s' \<and> \<not> training s' \<and> cv_train_loss s' \<noteq> None
                   \<and> cv_test_loss s' \<noteq> None \<and> cv_test_accuracy s' \<noteq> None)"
    proof (rule for_each_refines [where holds = "\<lambda>s. inference s \<and> \<not> training s
        \<and> cv_train_loss s \<noteq> None \<and> cv_test_loss s \<noteq> None \<and> cv_test_accuracy s \<noteq> None"])
      show "inference s6 \<and> \<not> training s6 \<and> cv_train_loss s6 \<noteq> None \<and> cv_test_loss s6 \<noteq> None
            \<and> cv_test_accuracy s6 \<noteq> None"
        by (rule s6(1))
    next
      fix x and t :: "('p, 'o, 'l) vision"
      assume x: "x \<in> set test_dataloader"
        and t: "inference t \<and> \<not> training t \<and> cv_train_loss t \<noteq> None \<and> cv_test_loss t \<noteq> None
                \<and> cv_test_accuracy t \<noteq> None"
      show "map_result model_of (run_cell (Block (vision_test_body fw argmax accuracy x)) t)
            = ?eval x (model_of t)"
        by (rule vision_test_batch_refines
            [where argmax = argmax and accuracy = accuracy, OF t metric [THEN bspec, OF x],
             THEN conjunct1])
    next
      fix x and t t' :: "('p, 'o, 'l) vision"
      assume x: "x \<in> set test_dataloader"
        and t: "inference t \<and> \<not> training t \<and> cv_train_loss t \<noteq> None \<and> cv_test_loss t \<noteq> None
                \<and> cv_test_accuracy t \<noteq> None"
        and ran: "run_cell (Block (vision_test_body fw argmax accuracy x)) t = Inr t'"
      show "inference t' \<and> \<not> training t' \<and> cv_train_loss t' \<noteq> None \<and> cv_test_loss t' \<noteq> None
            \<and> cv_test_accuracy t' \<noteq> None"
        using vision_test_batch_refines
          [where argmax = argmax and accuracy = accuracy, OF t metric [THEN bspec, OF x],
           THEN conjunct2, rule_format, OF ran] .
    qed
    show ?thesis
    proof (cases "?test s6")
      case (Inl e)
      then have "for_each test_dataloader ?eval (model_of s3) = Inl e"
        using tested s6(2) by (cases "for_each test_dataloader ?eval (model_of s3)") simp_all
      then show ?thesis
        using Inl by (simp add: rest spec_training_epoch_def schema3)
    next
      case s7: (Inr s7)
      then have "for_each test_dataloader ?eval (model_of s3) = Inr (model_of s7)"
        using tested s6(2) by simp
      moreover from this have m7: "model_of s7 = model_of s3"
        by (rule for_each_evaluation)
      ultimately have schema: "spec_training_epoch fw train_dataloader test_dataloader (model_of s)
          = Inr (model_of s3)"
        by (simp add: spec_training_epoch_def schema3)
      have vars: "cv_test_loss s7 \<noteq> None" "cv_test_accuracy s7 \<noteq> None"
        and kept: "cv_train_loss s7 \<noteq> None"
        using tested s7 by auto
      obtain b c d where "cv_test_loss s7 = Some b" "cv_test_accuracy s7 = Some c"
        "cv_train_loss s7 = Some d"
        using vars kept by auto
      then obtain s8 where final: "?cell s = Inr s8"
        and s8: "params s8 = params s7" "grad s8 = grad s7" "\<not> inference s8"
        using test
        by (simp add: rest s7 cv_divide_test_loss_def cv_divide_test_accuracy_def
            cv_print_summary_def the_var_def)
      have "model_of s8 = model_of s3"
        using s8 m7 by (simp add: model_of_def)
      then show ?thesis
        using s8(3) by (simp add: final schema)
    qed
  qed
qed

lemma vision_loop_refines:
  fixes s :: "('p, 'o, 'l) vision" and fw :: "('p, 'x, 'y, 'o, 'l) framework"
  assumes "\<not> inference s"
    and "\<forall>epoch<n. train_dataloader epoch \<noteq> []"
    and "test_dataloader \<noteq> []"
    and "\<forall>b \<in> set test_dataloader. \<forall>p t. model_call fw False True p (fst b) = Inr t
           \<longrightarrow> (\<exists>r. accuracy (snd b) (argmax t) = Inr r)"
  shows "map_result model_of
           (run_cell (vision_loop fw argmax accuracy n train_dataloader test_dataloader) s)
   = spec_training_loop fw n train_dataloader test_dataloader (model_of s)"
  unfolding vision_loop_def spec_training_loop_def
proof (rule loop_refines [where holds = "\<lambda>s. \<not> inference s"])
  show "\<not> inference s" by (rule assms(1))
next
  fix epoch and t :: "('p, 'o, 'l) vision"
  assume "epoch < n" and "\<not> inference t"
  then show "map_result model_of
          (run_cell (Block (vision_body fw argmax accuracy (train_dataloader epoch)
             test_dataloader epoch)) t)
        = spec_training_epoch fw (train_dataloader epoch) test_dataloader (model_of t)
        \<and> (\<forall>s'. run_cell (Block (vision_body fw argmax accuracy (train_dataloader epoch)
             test_dataloader epoch)) t = Inr s' \<longrightarrow> \<not> inference s')"
    using assms(2,3,4) by (intro vision_epoch_refines) auto
qed

text \<open>The schema on the data of the examples below.\<close>

lemmas schema_defs = spec_training_loop_def spec_training_epoch_def spec_training_step_def
  spec_evaluation_def py_range_def

lemmas linear_defs = linear_framework_def L1Loss_sum_def broadcast_def loss_backward_def SGD_def
  forward_def

lemma schema_two_epochs:
  "spec_training_loop (linear_framework (1 / 10)) 2 (\<lambda>epoch. [([1, 2], [3, 5])]) [([3], [7])]
     (\<lparr>weight = 0, bias = 0\<rparr>, None)
   = Inr (\<lparr>weight = 3 / 5, bias = 2 / 5\<rparr>, Some \<lparr>weight = - 3, bias = - 2\<rparr>)"
  by (simp add: schema_defs linear_defs numeral_2_eq_2)

lemma schema_two_batches:
  "spec_training_loop (linear_framework (1 / 10)) 1 (\<lambda>epoch. [([1], [3]), ([2], [5])]) [([3], [7])]
     (\<lparr>weight = 0, bias = 0\<rparr>, None)
   = Inr (\<lparr>weight = 3 / 10, bias = 1 / 5\<rparr>, Some \<lparr>weight = - 2, bias = - 1\<rparr>)"
  by (simp add: schema_defs linear_defs)

lemma schema_squeezed:
  "spec_training_loop (squeezed (linear_framework (1 / 10)) (\<lambda>t. t)) 1
     (\<lambda>epoch. [([1, 2], [3, 5])]) [([3], [7])] (\<lparr>weight = 0, bias = 0\<rparr>, None)
   = Inr (\<lparr>weight = 3 / 10, bias = 1 / 5\<rparr>, Some \<lparr>weight = - 3, bias = - 2\<rparr>)"
  by (simp add: schema_defs linear_defs squeezed_def)

text \<open>
  The schema fixes the mode of every call. With a framework whose forward pass refuses
  to run inside \<open>torch.inference_mode()\<close>, the evaluation of the schema raises, and the
  two evaluation statements of the workflow cell, run without the \<^verbatim>\<open>with\<close> block around
  them, return: they are the evaluation pass only inside the block.
\<close>

lemma evaluation_mode_is_observed:
  "spec_evaluation
     ((linear_framework (1 / 10))
        \<lparr>model_call := \<lambda>mode inference_mode_on m xs.
           if inference_mode_on then Inl RuntimeError
           else model_call (linear_framework (1 / 10)) mode inference_mode_on m xs\<rparr>)
     [3] [7] (\<lparr>weight = 0, bias = 0\<rparr>, None)
   = Inl RuntimeError
   \<and> map_result model_of
       (run_cell
          (Block
             [Atom module_eval,
              Block
                [Atom (wf_assign_test_prediction
                   ((linear_framework (1 / 10))
                      \<lparr>model_call := \<lambda>mode inference_mode_on m xs.
                         if inference_mode_on then Inl RuntimeError
                         else model_call (linear_framework (1 / 10)) mode inference_mode_on m xs\<rparr>)
                   \<lparr>train_predictor = [1, 2], train_target = [3, 5],
                    test_predictor = [3], test_target = [7]\<rparr>),
                 Atom (wf_assign_test_loss
                   ((linear_framework (1 / 10))
                      \<lparr>model_call := \<lambda>mode inference_mode_on m xs.
                         if inference_mode_on then Inl RuntimeError
                         else model_call (linear_framework (1 / 10)) mode inference_mode_on m xs\<rparr>)
                   \<lparr>train_predictor = [1, 2], train_target = [3, 5],
                    test_predictor = [3], test_target = [7]\<rparr>)]])
          (workflow_start \<lparr>weight = 0, bias = 0\<rparr>))
     = Inr (\<lparr>weight = 0, bias = 0\<rparr>, None)"
  by (simp add: spec_evaluation_def run_cell_simps module_eval_def wf_assign_test_prediction_def
      wf_assign_test_loss_def the_var_def workflow_start_def model_of_def linear_defs)

text \<open>
  C2. Every training loop of the three notebooks is an instance of one schema: for each
  epoch, and for each batch where a loader is used, the forward pass over the training
  data, the loss against the true targets, \<open>optimizer.zero_grad()\<close>, \<open>loss.backward()\<close>
  and \<open>optimizer.step()\<close>, and then the evaluation pass on the test data under
  \<open>torch.inference_mode()\<close>. For every framework, that is for every model, loss function
  and optimizer, and for every epoch count, each loop, started outside
  \<open>torch.inference_mode()\<close>, leaves the parameters and gradients that the schema leaves on
  the same data, and raises the error that the schema raises: the workflow loop and the
  classification loop (which prints every \<open>print_every\<close>-th epoch, \<open>print_every\<close> being 10
  or 1000) with the training data as one batch and the test data as one batch, the
  computer-vision loop with the batches of its loaders, where every loader yields at
  least one batch and the accuracy returns on what the model returns for a test batch.
  The framework receives the mode of the module and whether the call is inside
  \<open>torch.inference_mode()\<close>, so the equality for every framework is also the equality
  of the order and of the mode of the calls.
\<close>

theorem training_loops_refine_schema:
  fixes v :: "('p, 'o, 'l) vision" and fv :: "('p, 'x, 'y, 'o, 'l) framework"
  shows
  "(\<not> inference s \<longrightarrow>
      map_result model_of (run_cell (workflow_loop fw epoch_count d) s)
      = spec_training_loop fw epoch_count (\<lambda>epoch. [(train_predictor d, train_target d)])
          [(test_predictor d, test_target d)] (model_of s))
   \<and> (\<not> inference t \<and> 0 < print_every \<longrightarrow>
      map_result model_of
        (run_cell (classification_loop fc squeeze round_sigmoid print_every epochs cd) t)
      = spec_training_loop (squeezed fc squeeze) epochs
          (\<lambda>epoch. [(cc_train_input cd, cc_train_output cd)])
          [(cc_test_input cd, cc_test_output cd)] (model_of t))
   \<and> (\<not> inference v \<and> (\<forall>epoch<rounds. train_dataloader epoch \<noteq> []) \<and> test_dataloader \<noteq> []
        \<and> (\<forall>b \<in> set test_dataloader. \<forall>p out. model_call fv False True p (fst b) = Inr out
              \<longrightarrow> (\<exists>r. accuracy (snd b) (argmax out) = Inr r)) \<longrightarrow>
      map_result model_of
        (run_cell (vision_loop fv argmax accuracy rounds train_dataloader test_dataloader) v)
      = spec_training_loop fv rounds train_dataloader test_dataloader (model_of v))"
proof (intro conjI impI)
  assume "\<not> inference s"
  then show "map_result model_of (run_cell (workflow_loop fw epoch_count d) s)
      = spec_training_loop fw epoch_count (\<lambda>epoch. [(train_predictor d, train_target d)])
          [(test_predictor d, test_target d)] (model_of s)"
    by (rule workflow_loop_refines)
next
  assume "\<not> inference t \<and> 0 < print_every"
  then show "map_result model_of
        (run_cell (classification_loop fc squeeze round_sigmoid print_every epochs cd) t)
      = spec_training_loop (squeezed fc squeeze) epochs
          (\<lambda>epoch. [(cc_train_input cd, cc_train_output cd)])
          [(cc_test_input cd, cc_test_output cd)] (model_of t)"
    by (intro classification_loop_refines) simp_all
next
  assume "\<not> inference v \<and> (\<forall>epoch<rounds. train_dataloader epoch \<noteq> []) \<and> test_dataloader \<noteq> []
        \<and> (\<forall>b \<in> set test_dataloader. \<forall>p out. model_call fv False True p (fst b) = Inr out
              \<longrightarrow> (\<exists>r. accuracy (snd b) (argmax out) = Inr r))"
  then show "map_result model_of
        (run_cell (vision_loop fv argmax accuracy rounds train_dataloader test_dataloader) v)
      = spec_training_loop fv rounds train_dataloader test_dataloader (model_of v)"
    by (intro vision_loop_refines) simp_all
qed

theorem training_loops_refine_schema_witness:
  "\<not> inference (workflow_start \<lparr>weight = 0, bias = 0\<rparr>
       :: (real LinearRegressionModel, prediction_tensor, loss_tensor) workflow)
   \<and> map_result model_of
       (run_cell
          (workflow_loop (linear_framework (1 / 10)) 2
             \<lparr>train_predictor = [1, 2], train_target = [3, 5],
              test_predictor = [3], test_target = [7]\<rparr>)
          (workflow_start \<lparr>weight = 0, bias = 0\<rparr>))
     = Inr (\<lparr>weight = 3 / 5, bias = 2 / 5\<rparr>, Some \<lparr>weight = - 3, bias = - 2\<rparr>)
   \<and> \<not> inference (classification_start \<lparr>weight = 0, bias = 0\<rparr>
       :: (real LinearRegressionModel, prediction_tensor, real list, loss_tensor) classification)
   \<and> (0 :: nat) < 10
   \<and> map_result model_of
       (run_cell
          (classification_loop (linear_framework (1 / 10)) (\<lambda>t. t) pt_values 10 1
             \<lparr>cc_train_input = [1, 2], cc_test_input = [3],
              cc_train_output = [3, 5], cc_test_output = [7]\<rparr>)
          (classification_start \<lparr>weight = 0, bias = 0\<rparr>))
     = Inr (\<lparr>weight = 3 / 10, bias = 1 / 5\<rparr>, Some \<lparr>weight = - 3, bias = - 2\<rparr>)
   \<and> \<not> inference (vision_start \<lparr>weight = 0, bias = 0\<rparr>
       :: (real LinearRegressionModel, prediction_tensor, loss_tensor) vision)
   \<and> \<not> (\<exists>epoch<1. (\<lambda>epoch. [([1 :: real], [3 :: real]), ([2], [5])]) epoch = [])
   \<and> [([3 :: real], [7 :: real])] \<noteq> []
   \<and> \<not> (\<exists>b \<in> set [([3 :: real], [7 :: real])].
           \<exists>p out. model_call (linear_framework (1 / 10)) False True p (fst b) = Inr out
             \<and> (\<forall>r. accuracy_function (snd b) (pt_values out) \<noteq> Inr r))
   \<and> map_result model_of
       (run_cell
          (vision_loop (linear_framework (1 / 10)) pt_values accuracy_function 1
             (\<lambda>epoch. [([1], [3]), ([2], [5])]) [([3], [7])])
          (vision_start \<lparr>weight = 0, bias = 0\<rparr>))
     = Inr (\<lparr>weight = 3 / 10, bias = 1 / 5\<rparr>, Some \<lparr>weight = - 2, bias = - 1\<rparr>)"
proof -
  let ?m = "\<lparr>weight = 0 :: real, bias = 0\<rparr>"
  let ?fw = "linear_framework (1 / 10)"
  let ?s = "workflow_start ?m :: (real LinearRegressionModel, prediction_tensor, loss_tensor) workflow"
  let ?t = "classification_start ?m
    :: (real LinearRegressionModel, prediction_tensor, real list, loss_tensor) classification"
  let ?v = "vision_start ?m :: (real LinearRegressionModel, prediction_tensor, loss_tensor) vision"
  have outside: "\<not> inference ?s" by (simp add: workflow_start_def)
  have printing: "\<not> inference ?t \<and> (0 :: nat) < 10" by (simp add: classification_start_def)
  have loaders: "\<not> inference ?v
      \<and> (\<forall>epoch<1. (\<lambda>epoch. [([1 :: real], [3 :: real]), ([2], [5])]) epoch \<noteq> [])
      \<and> [([3 :: real], [7 :: real])] \<noteq> []
      \<and> (\<forall>b \<in> set [([3 :: real], [7 :: real])].
           \<forall>p out. model_call ?fw False True p (fst b) = Inr out
             \<longrightarrow> (\<exists>r. accuracy_function (snd b) (pt_values out) = Inr r))"
    by (auto simp: vision_start_def linear_framework_def forward_def accuracy_function_def
        torch_eq_def)
  have ms: "model_of ?s = (?m, None)" by (simp add: model_of_def workflow_start_def)
  have mt: "model_of ?t = (?m, None)" by (simp add: model_of_def classification_start_def)
  have mv: "model_of ?v = (?m, None)" by (simp add: model_of_def vision_start_def)
  note inst = training_loops_refine_schema
    [where s = ?s and fw = ?fw and epoch_count = 2
       and d = "\<lparr>train_predictor = [1, 2], train_target = [3, 5],
              test_predictor = [3], test_target = [7]\<rparr>"
       and t = ?t and fc = ?fw and squeeze = "\<lambda>t. t" and round_sigmoid = pt_values
       and print_every = 10 and epochs = 1
       and cd = "\<lparr>cc_train_input = [1, 2], cc_test_input = [3],
              cc_train_output = [3, 5], cc_test_output = [7]\<rparr>"
       and v = ?v and fv = ?fw and argmax = pt_values and accuracy = accuracy_function
       and rounds = 1 and train_dataloader = "\<lambda>epoch. [([1], [3]), ([2], [5])]"
       and test_dataloader = "[([3], [7])]"]
  have 1: "map_result model_of
       (run_cell
          (workflow_loop ?fw 2
             \<lparr>train_predictor = [1, 2], train_target = [3, 5],
              test_predictor = [3], test_target = [7]\<rparr>) ?s)
     = Inr (\<lparr>weight = 3 / 5, bias = 2 / 5\<rparr>, Some \<lparr>weight = - 3, bias = - 2\<rparr>)"
    using inst [THEN conjunct1, rule_format, OF outside]
    by (simp only: ms schema_two_epochs split.select_convs)
  have 2: "map_result model_of
       (run_cell
          (classification_loop ?fw (\<lambda>t. t) pt_values 10 1
             \<lparr>cc_train_input = [1, 2], cc_test_input = [3],
              cc_train_output = [3, 5], cc_test_output = [7]\<rparr>) ?t)
     = Inr (\<lparr>weight = 3 / 10, bias = 1 / 5\<rparr>, Some \<lparr>weight = - 3, bias = - 2\<rparr>)"
    using inst [THEN conjunct2, THEN conjunct1, rule_format, OF printing]
    by (simp only: mt schema_squeezed circles.select_convs)
  have 3: "map_result model_of
       (run_cell
          (vision_loop ?fw pt_values accuracy_function 1
             (\<lambda>epoch. [([1], [3]), ([2], [5])]) [([3], [7])]) ?v)
     = Inr (\<lparr>weight = 3 / 10, bias = 1 / 5\<rparr>, Some \<lparr>weight = - 2, bias = - 1\<rparr>)"
    using inst [THEN conjunct2, THEN conjunct2, rule_format, OF loaders]
    by (simp only: mv schema_two_batches)
  have every_epoch: "\<not> (\<exists>epoch<1. (\<lambda>epoch. [([1 :: real], [3 :: real]), ([2], [5])]) epoch = [])"
    by simp
  have every_batch: "\<not> (\<exists>b \<in> set [([3 :: real], [7 :: real])].
           \<exists>p out. model_call ?fw False True p (fst b) = Inr out
             \<and> (\<forall>r. accuracy_function (snd b) (pt_values out) \<noteq> Inr r))"
    using loaders by simp
  show ?thesis
    using outside printing loaders every_epoch every_batch 1 2 3 by (intro conjI) simp_all
qed

subsection \<open>Failures\<close>













lemma handler_recovers:
  "reaches (Try (Atom (\<lambda>s. Inl e)) (\<lambda>e. Block [])) s (\<lambda>s. Inl e) s
   \<and> exec (Try (Atom (\<lambda>s. Inl e)) (\<lambda>e. Block [])) s = (s, None)"
  by (simp add: reaches_Try_body reaches_Atom)










end
